theory Spec2Isabelle
  imports Main
begin

section \<open>Python values\<close>

text \<open>
  A Python \<open>str\<close> is modelled as a \<open>string\<close>; one \<open>char\<close> stands for one code point
  below 256. The literals of the source are ASCII apart from the emoji that open the
  \<open>st.info\<close> banners, which are left out of the banner texts.

  Exceptions are values. Only the classes that some \<open>except\<close> clause of the source tells
  apart, or that the modelled operations raise, have a constructor of their own; every other
  subclass of \<open>Exception\<close> is \<open>OtherException\<close>. The argument is \<open>str(e)\<close>;
  \<open>is_TimeoutExpired\<close>, \<open>is_FileNotFoundError\<close>, \<open>is_ImportError\<close> and
  \<open>is_JSONDecodeError\<close> test the class. \<open>ValueError\<close> is a \<open>ValueError\<close> that is not a
  \<open>JSONDecodeError\<close>.
\<close>

datatype py_exn =
    is_TimeoutExpired: TimeoutExpired string
  | is_FileNotFoundError: FileNotFoundError string
  | is_ImportError: ImportError string
  | is_JSONDecodeError: JSONDecodeError string
  | ValueError string
  | RecursionError string
  | AttributeError string
  | TypeError string
  | OtherException string

fun exn_str :: "py_exn \<Rightarrow> string" where
  "exn_str (TimeoutExpired m) = m"
| "exn_str (FileNotFoundError m) = m"
| "exn_str (ImportError m) = m"
| "exn_str (JSONDecodeError m) = m"
| "exn_str (ValueError m) = m"
| "exn_str (RecursionError m) = m"
| "exn_str (AttributeError m) = m"
| "exn_str (TypeError m) = m"
| "exn_str (OtherException m) = m"

text \<open>
  What \<open>json.loads\<close> returns: \<open>None\<close>, a bool, an int, a str, a list or a dict. A dict is
  an association list read with \<open>map_of\<close>; \<open>json.loads\<close> builds it with distinct keys.
  Floats are not modelled.
\<close>

datatype json =
    JNull
  | JBool bool
  | JInt int
  | JStr string
  | JList "json list"
  | JObj "(string \<times> json) list"

text \<open>\<open>str.isspace\<close> on the code points below 256, and \<open>str.strip()\<close>.\<close>

definition isspace :: "char \<Rightarrow> bool" where
  "isspace c =
     (let n = (of_char c :: nat)
      in (9 \<le> n \<and> n \<le> 13) \<or> (28 \<le> n \<and> n \<le> 32) \<or> n = 133 \<or> n = 160)"

definition strip :: "string \<Rightarrow> string" where
  "strip s = rev (dropWhile isspace (rev (dropWhile isspace s)))"

text \<open>\<open>s.split(c)\<close> for a separator of one character.\<close>

fun split_on :: "char \<Rightarrow> string \<Rightarrow> string list" where
  "split_on c [] = [[]]"
| "split_on c (x # xs) =
     (if x = c then [] # split_on c xs
      else (case split_on c xs of
              [] \<Rightarrow> [[x]]
            | piece # pieces \<Rightarrow> (x # piece) # pieces))"

text \<open>
  \<open>s.split(sep)\<close> for a separator of any length, scanning from the left; \<open>cur\<close> is the
  piece being read. Python raises \<open>ValueError\<close> on an empty separator; the only caller
  passes the constant \<open>REVIEW:\<close>.
\<close>

function py_split :: "string \<Rightarrow> string \<Rightarrow> string \<Rightarrow> string list" where
  "py_split sep cur s =
     (if s = [] then [cur]
      else if sep \<noteq> [] \<and> take (length sep) s = sep
           then cur # py_split sep [] (drop (length sep) s)
      else py_split sep (cur @ [hd s]) (tl s))"
  by pat_completeness auto
termination
  by (relation "measure (\<lambda>(sep, cur, s). length s)") auto

text \<open>\<open>sub in s\<close> on strings.\<close>

fun contains :: "string \<Rightarrow> string \<Rightarrow> bool" where
  "contains sub [] = (sub = [])"
| "contains sub (x # xs) = (take (length sub) (x # xs) = sub \<or> contains sub xs)"

section \<open>The world outside the program\<close>

text \<open>
  The state the program changes: the files that exist (path to content), and a trace of what
  was called, in order. \<open>Invoke t\<close> is appended on entry to the adapter of tool \<open>t\<close>
  (\<open>run_pylint_analysis\<close>, \<open>run_bandit_analysis\<close>, \<open>run_eslint_analysis\<close>,
  \<open>call_huggingface_model\<close>); \<open>Info m\<close> is an \<open>st.info(m)\<close> banner.
\<close>

datatype tool = Pylint | Bandit | Eslint | CodeT5

datatype event = Invoke tool | Info string

record world =
  files :: "string \<rightharpoonup> string"
  trace :: "event list"

text \<open>
  What the program reads from outside, fixed for one run:
  \<^item> \<open>tempdir\<close> and \<open>random_names\<close>: the directory \<open>tempfile\<close> writes to, and the random
    name parts it tries in order; a candidate path is the directory, \<open>/tmp\<close>, the random
    part and the suffix, and the first candidate that does not exist is taken;
  \<^item> \<open>write_error code\<close>: the exception \<open>f.write(code)\<close> raises, if it raises (the text
    cannot be encoded in the file's encoding, or the device is full);
  \<^item> \<open>subprocess_run argv fs\<close>: what \<open>subprocess.run(argv, capture_output=True,
    text=True, timeout=30)\<close> does when the files are \<open>fs\<close>: raises, or completes with
    (stdout, stderr). The tool's own writes to the file system are not modelled;
  \<^item> \<open>json_loads s\<close>: \<open>json.loads(s)\<close>: the value, or the exception it raises. That is
    \<open>JSONDecodeError\<close> for a text that is not JSON; it can be another one, such as
    \<open>ValueError\<close> for an integer literal of more digits than the interpreter converts,
    or \<open>RecursionError\<close> for a text nested too deeply;
  \<^item> \<open>generate p\<close>: the body of the \<open>try\<close> of \<open>call_huggingface_model\<close> up to
    \<open>result[0]['generated_text']\<close>: importing transformers and torch, building the
    pipeline and generating from prompt \<open>p\<close>: raises, or gives the generated text;
  \<^item> \<open>timestamp_now\<close>: \<open>str(pd.Timestamp.now())\<close>;
  \<^item> \<open>strftime_now\<close>: \<open>datetime.now().strftime('%Y-%m-%d %H:%M:%S')\<close>;
  \<^item> \<open>repr_container v\<close>: \<open>str(v)\<close> for a list or a dict \<open>v\<close>.
\<close>

record env =
  tempdir :: string
  random_names :: "string list"
  write_error :: "string \<Rightarrow> py_exn option"
  subprocess_run :: "string list \<Rightarrow> (string \<rightharpoonup> string) \<Rightarrow> py_exn + string \<times> string"
  json_loads :: "string \<Rightarrow> py_exn + json"
  generate :: "string \<Rightarrow> py_exn + string"
  timestamp_now :: string
  strftime_now :: string
  repr_container :: "json \<Rightarrow> string"

definition log_event :: "event \<Rightarrow> world \<Rightarrow> world" where
  "log_event e w = w\<lparr>trace := trace w @ [e]\<rparr>"

section \<open>reviewer.py\<close>

subsection \<open>The temporary file and the subprocess\<close>

text \<open>
  \<open>tempfile.NamedTemporaryFile(mode='w', suffix=..., delete=False)\<close>: creates an empty
  file under the first candidate path that does not exist, and raises when there is none.
\<close>

definition tmp_candidates :: "env \<Rightarrow> string \<Rightarrow> string list" where
  "tmp_candidates env suffix = map (\<lambda>r. tempdir env @ ''/tmp'' @ r @ suffix) (random_names env)"

definition NamedTemporaryFile :: "env \<Rightarrow> string \<Rightarrow> world \<Rightarrow> (py_exn + string) \<times> world" where
  "NamedTemporaryFile env suffix w =
     (case filter (\<lambda>n. files w n = None) (tmp_candidates env suffix) of
        [] \<Rightarrow> (Inl (OtherException ''No usable temporary file name found''), w)
      | name # _ \<Rightarrow> (Inr name, w\<lparr>files := (files w)(name \<mapsto> [])\<rparr>))"

text \<open>
  The body of the \<open>try\<close> that the three adapters share, up to the return of
  \<open>subprocess.run\<close>:
  \<^verbatim>\<open>
      with tempfile.NamedTemporaryFile(mode='w', suffix=SUFFIX, delete=False) as f:
          f.write(code)
          temp_file = f.name
      result = subprocess.run(ARGV, capture_output=True, text=True, timeout=30)
  \<close>
  It returns what the body raised or the completed process, the value of the variable
  \<open>temp_file\<close> at that point (\<open>None\<close> until the assignment after \<open>f.write\<close>), and the world.
\<close>

definition write_and_run ::
  "env \<Rightarrow> string \<Rightarrow> (string \<Rightarrow> string list) \<Rightarrow> string \<Rightarrow> world
     \<Rightarrow> (py_exn + string \<times> string) \<times> string option \<times> world" where
  "write_and_run env suffix argv code w =
     (case NamedTemporaryFile env suffix w of
        (Inl e, w1) \<Rightarrow> (Inl e, None, w1)
      | (Inr name, w1) \<Rightarrow>
          (case write_error env code of
             Some e \<Rightarrow> (Inl e, None, w1)
           | None \<Rightarrow>
               (let w2 = w1\<lparr>files := (files w1)(name \<mapsto> code)\<rparr>
                in (subprocess_run env (argv name) (files w2), Some name, w2))))"

text \<open>
  The \<open>finally\<close> clause:
  \<^verbatim>\<open>
      if temp_file and os.path.exists(temp_file):
          os.unlink(temp_file)
  \<close>
\<close>

definition cleanup :: "string option \<Rightarrow> world \<Rightarrow> world" where
  "cleanup temp_file w =
     (case temp_file of
        None \<Rightarrow> w
      | Some p \<Rightarrow>
          (if p \<noteq> [] \<and> files w p \<noteq> None then w\<lparr>files := (files w)(p := None)\<rparr> else w))"

subsection \<open>The adapters\<close>

text \<open>
  The dict an adapter returns. The success dict has the keys \<open>success\<close>, \<open>results\<close>,
  \<open>raw_output\<close>, \<open>errors\<close>; the failure dict has \<open>success\<close>, \<open>error\<close>, \<open>results\<close>. A key
  the dict does not have is \<open>None\<close>.
\<close>

record analyzer_result =
  success :: bool
  results :: json
  error :: "string option"
  raw_output :: "string option"
  errors :: "string option"

definition completed :: "json \<Rightarrow> string \<Rightarrow> string \<Rightarrow> analyzer_result" where
  "completed payload out err =
     \<lparr>success = True, results = payload, error = None, raw_output = Some out, errors = Some err\<rparr>"

definition failure :: "string \<Rightarrow> json \<Rightarrow> analyzer_result" where
  "failure msg fallback =
     \<lparr>success = False, results = fallback, error = Some msg, raw_output = None, errors = None\<rparr>"

text \<open>
  The loop of \<open>run_pylint_analysis\<close> over the lines of stdout:
  \<^verbatim>\<open>
      for line in result.stdout.strip().split('\n'):
          if line.strip():
              try:
                  pylint_results.append(json.loads(line))
              except json.JSONDecodeError:
                  continue
  \<close>
\<close>

text \<open>
  Only \<open>JSONDecodeError\<close> is caught at the line; any other exception \<open>json.loads\<close> raises
  leaves the loop and reaches the \<open>except\<close> clauses of the adapter.
\<close>

fun parse_lines ::
  "(string \<Rightarrow> py_exn + json) \<Rightarrow> string list \<Rightarrow> json list \<Rightarrow> py_exn + json list" where
  "parse_lines loads [] pylint_results = Inr pylint_results"
| "parse_lines loads (line # rest) pylint_results =
     (if strip line \<noteq> []
      then (case loads line of
              Inr v \<Rightarrow> parse_lines loads rest (pylint_results @ [v])
            | Inl e \<Rightarrow>
                (if is_JSONDecodeError e then parse_lines loads rest pylint_results
                 else Inl e))
      else parse_lines loads rest pylint_results)"

definition pylint_parse :: "env \<Rightarrow> string \<Rightarrow> py_exn + json" where
  "pylint_parse env out =
     (if strip out \<noteq> []
      then (case parse_lines (json_loads env) (split_on CHR 0x0A (strip out)) [] of
              Inr pylint_results \<Rightarrow> Inr (JList pylint_results)
            | Inl e \<Rightarrow> Inl e)
      else Inr (JList []))"

text \<open>
  \<open>run_bandit_analysis\<close> and \<open>run_eslint_analysis\<close> parse stdout as one document, starting
  from \<open>{}\<close> and \<open>[]\<close>:
  \<^verbatim>\<open>
      if result.stdout.strip():
          try:
              bandit_results = json.loads(result.stdout)
          except json.JSONDecodeError:
              pass
  \<close>
\<close>

definition document_parse :: "env \<Rightarrow> json \<Rightarrow> string \<Rightarrow> py_exn + json" where
  "document_parse env fallback out =
     (if strip out \<noteq> []
      then (case json_loads env out of
              Inr v \<Rightarrow> Inr v
            | Inl e \<Rightarrow> (if is_JSONDecodeError e then Inr fallback else Inl e))
      else Inr fallback)"

definition pylint_argv :: "string \<Rightarrow> string list" where
  "pylint_argv temp_file = [''pylint'', temp_file, ''--output-format=json'']"

definition bandit_argv :: "string \<Rightarrow> string list" where
  "bandit_argv temp_file = [''bandit'', ''-f'', ''json'', ''-r'', temp_file]"

definition eslint_argv :: "string \<Rightarrow> string list" where
  "eslint_argv temp_file = [''npx'', ''eslint'', temp_file, ''--format=json'']"

text \<open>The \<open>except\<close> clauses of each adapter, in the order of the source.\<close>

fun pylint_except :: "py_exn \<Rightarrow> analyzer_result" where
  "pylint_except (TimeoutExpired m) = failure ''Pylint timed out'' (JList [])"
| "pylint_except (FileNotFoundError m) =
     failure ''pylint not found. Run: pip install pylint'' (JList [])"
| "pylint_except e = failure (exn_str e) (JList [])"

fun bandit_except :: "py_exn \<Rightarrow> analyzer_result" where
  "bandit_except (TimeoutExpired m) = failure ''Bandit timed out'' (JObj [])"
| "bandit_except (FileNotFoundError m) =
     failure ''bandit not found. Run: pip install bandit'' (JObj [])"
| "bandit_except e = failure (exn_str e) (JObj [])"

fun eslint_except :: "py_exn \<Rightarrow> analyzer_result" where
  "eslint_except (TimeoutExpired m) = failure ''ESLint timed out'' (JList [])"
| "eslint_except (FileNotFoundError m) =
     failure ''ESLint/Node not found. Install Node.js + npm install -g eslint'' (JList [])"
| "eslint_except e = failure (exn_str e) (JList [])"

definition run_pylint_analysis :: "env \<Rightarrow> string \<Rightarrow> world \<Rightarrow> analyzer_result \<times> world" where
  "run_pylint_analysis env code w =
     (case write_and_run env ''.py'' pylint_argv code (log_event (Invoke Pylint) w) of
        (Inr (out, err), temp_file, w1) \<Rightarrow>
          (case pylint_parse env out of
             Inr pylint_results \<Rightarrow> (completed pylint_results out err, cleanup temp_file w1)
           | Inl e \<Rightarrow> (pylint_except e, cleanup temp_file w1))
      | (Inl e, temp_file, w1) \<Rightarrow> (pylint_except e, cleanup temp_file w1))"

definition run_bandit_analysis :: "env \<Rightarrow> string \<Rightarrow> world \<Rightarrow> analyzer_result \<times> world" where
  "run_bandit_analysis env code w =
     (case write_and_run env ''.py'' bandit_argv code (log_event (Invoke Bandit) w) of
        (Inr (out, err), temp_file, w1) \<Rightarrow>
          (case document_parse env (JObj []) out of
             Inr bandit_results \<Rightarrow> (completed bandit_results out err, cleanup temp_file w1)
           | Inl e \<Rightarrow> (bandit_except e, cleanup temp_file w1))
      | (Inl e, temp_file, w1) \<Rightarrow> (bandit_except e, cleanup temp_file w1))"

definition run_eslint_analysis :: "env \<Rightarrow> string \<Rightarrow> world \<Rightarrow> analyzer_result \<times> world" where
  "run_eslint_analysis env code w =
     (case write_and_run env ''.js'' eslint_argv code (log_event (Invoke Eslint) w) of
        (Inr (out, err), temp_file, w1) \<Rightarrow>
          (case document_parse env (JList []) out of
             Inr eslint_results \<Rightarrow> (completed eslint_results out err, cleanup temp_file w1)
           | Inl e \<Rightarrow> (eslint_except e, cleanup temp_file w1))
      | (Inl e, temp_file, w1) \<Rightarrow> (eslint_except e, cleanup temp_file w1))"

text \<open>
  For stating what the adapters keep of a stdout: the non-blank lines of the stripped
  stdout, which are the lines the pylint loop hands to \<open>json.loads\<close>; whether
  \<open>json.loads\<close> on a text returns or raises \<open>JSONDecodeError\<close>, and nothing else; and the
  value it returns, if it returns.
\<close>

definition stdout_lines :: "string \<Rightarrow> string list" where
  "stdout_lines out =
     filter (\<lambda>line. strip line \<noteq> [])
       (if strip out = [] then [] else split_on CHR 0x0A (strip out))"

definition decodes :: "env \<Rightarrow> string \<Rightarrow> bool" where
  "decodes env s = (case json_loads env s of Inr v \<Rightarrow> True | Inl e \<Rightarrow> is_JSONDecodeError e)"

definition loads_value :: "env \<Rightarrow> string \<Rightarrow> json option" where
  "loads_value env s = (case json_loads env s of Inr v \<Rightarrow> Some v | Inl e \<Rightarrow> None)"

text \<open>
  What the \<open>try\<close> of each adapter gets before it parses: the exception raised while the
  file was created and written and the tool was run, or the completed process's stdout and
  stderr.
\<close>

definition pylint_try :: "env \<Rightarrow> string \<Rightarrow> world \<Rightarrow> py_exn + string \<times> string" where
  "pylint_try env code w =
     fst (write_and_run env ''.py'' pylint_argv code (log_event (Invoke Pylint) w))"

definition bandit_try :: "env \<Rightarrow> string \<Rightarrow> world \<Rightarrow> py_exn + string \<times> string" where
  "bandit_try env code w =
     fst (write_and_run env ''.py'' bandit_argv code (log_event (Invoke Bandit) w))"

definition eslint_try :: "env \<Rightarrow> string \<Rightarrow> world \<Rightarrow> py_exn + string \<times> string" where
  "eslint_try env code w =
     fst (write_and_run env ''.js'' eslint_argv code (log_event (Invoke Eslint) w))"

subsection \<open>Static analysis by language\<close>

record static_analysis =
  sa_language :: string
  pylint :: "analyzer_result option"
  bandit :: "analyzer_result option"
  eslint :: "analyzer_result option"

definition run_static_analysis :: "env \<Rightarrow> string \<Rightarrow> string \<Rightarrow> world \<Rightarrow> static_analysis \<times> world" where
  "run_static_analysis env code language w =
     (let results = \<lparr>sa_language = language, pylint = None, bandit = None, eslint = None\<rparr>
      in if language = ''Python'' then
           (case run_pylint_analysis env code (log_event (Info ''Running Pylint + Bandit...'') w) of
              (p, w1) \<Rightarrow>
                (case run_bandit_analysis env code w1 of
                   (b, w2) \<Rightarrow> (results\<lparr>pylint := Some p, bandit := Some b\<rparr>, w2)))
         else if language = ''JavaScript'' then
           (case run_eslint_analysis env code (log_event (Info ''Running ESLint...'') w) of
              (e, w1) \<Rightarrow> (results\<lparr>eslint := Some e\<rparr>, w1))
         else (results, w))"

subsection \<open>The AI commentary\<close>

definition create_code_review_prompt :: "string \<Rightarrow> string \<Rightarrow> string" where
  "create_code_review_prompt code language =
     ''Review this '' @ language @ '' code and provide:\<newline>'' @
     ''1. Brief summary of what the code does\<newline>'' @
     ''2. Readability suggestions \<newline>'' @
     ''3. Potential bugs\<newline>'' @
     ''4. Security concerns\<newline>'' @
     ''5. Refactoring suggestions\<newline>'' @
     ''\<newline>'' @
     ''Code:\<newline>'' @
     code @ ''\<newline>'' @
     ''\<newline>'' @
     ''REVIEW:''"

text \<open>
  \<open>call_huggingface_model\<close>. The result is a sum so that a caller's \<open>except\<close> clause has
  something to match; every branch of the source returns a string.
\<close>

definition short_prompt :: "string \<Rightarrow> string" where
  "short_prompt prompt = take 1000 prompt @ ''\<newline>REVIEW:''"

definition call_huggingface_model :: "env \<Rightarrow> string \<Rightarrow> world \<Rightarrow> (py_exn + string) \<times> world" where
  "call_huggingface_model env prompt w =
     (let result = generate env (short_prompt prompt)
      in (case result of
            Inr generated_text \<Rightarrow>
              (let feedback =
                     (if contains ''REVIEW:'' generated_text
                      then strip (last (py_split ''REVIEW:'' [] generated_text))
                      else generated_text)
               in Inr (if feedback \<noteq> [] then feedback
                       else ''AI model generated no specific feedback.''))
          | Inl (ImportError m) \<Rightarrow>
              Inr ''PyTorch/Transformers not available. Install with: pip install torch transformers''
          | Inl e \<Rightarrow> Inr (''AI analysis failed: '' @ exn_str e),
          log_event (Invoke CodeT5) w))"

text \<open>
  The dict \<open>run_ai_analysis\<close> returns: \<open>success\<close>, \<open>feedback\<close>, \<open>model_used\<close> from the
  \<open>try\<close>, or \<open>success\<close>, \<open>error\<close>, \<open>feedback\<close> from the \<open>except\<close>.
\<close>

record ai_commentary =
  ai_success :: bool
  feedback :: string
  model_used :: "string option"
  ai_error :: "string option"

definition run_ai_analysis :: "env \<Rightarrow> string \<Rightarrow> string \<Rightarrow> world \<Rightarrow> ai_commentary \<times> world" where
  "run_ai_analysis env code language w =
     (case call_huggingface_model env (create_code_review_prompt code language)
             (log_event (Info ''Running CodeT5 AI analysis...'') w) of
        (Inr ai_feedback, w1) \<Rightarrow>
          (\<lparr>ai_success = True, feedback = ai_feedback,
            model_used = Some ''Salesforce/codet5-base'', ai_error = None\<rparr>, w1)
      | (Inl e, w1) \<Rightarrow>
          (\<lparr>ai_success = False, feedback = ''AI analysis unavailable'',
            model_used = None, ai_error = Some (exn_str e)\<rparr>, w1))"

subsection \<open>The orchestrator\<close>

text \<open>
  \<open>review_code\<close> returns either the error dict
  \<open>{"error": msg, "static_analysis": {}, "ai_analysis": {}}\<close> or the review dict with
  the keys \<open>language\<close>, \<open>static_analysis\<close>, \<open>ai_analysis\<close>, \<open>timestamp\<close>.
\<close>

record review =
  review_language :: string
  static :: static_analysis
  ai :: ai_commentary
  timestamp :: string

datatype review_result = ErrorResult string | Review review

definition supported_languages :: "string list" where
  "supported_languages = [''Python'', ''JavaScript'']"

definition review_code :: "env \<Rightarrow> string \<Rightarrow> string \<Rightarrow> world \<Rightarrow> review_result \<times> world" where
  "review_code env code language w =
     (if strip code = [] then (ErrorResult ''No code provided'', w)
      else if language \<notin> set supported_languages
           then (ErrorResult (''Unsupported language: '' @ language), w)
      else (case run_static_analysis env code language w of
              (static_results, w1) \<Rightarrow>
                (case run_ai_analysis env code language w1 of
                   (ai_results, w2) \<Rightarrow>
                     (Review \<lparr>review_language = language, static = static_results,
                              ai = ai_results, timestamp = timestamp_now env\<rparr>, w2))))"

text \<open>The events a run added to the trace: those of \<open>w'\<close> after the ones \<open>w\<close> had.\<close>

definition events_since :: "world \<Rightarrow> world \<Rightarrow> event list" where
  "events_since w w' = drop (length (trace w)) (trace w')"

section \<open>app.py\<close>

subsection \<open>Python operations on parsed JSON\<close>

definition bindE :: "'e + 'a \<Rightarrow> ('a \<Rightarrow> 'e + 'b) \<Rightarrow> 'e + 'b" where
  "bindE m f = (case m of Inl e \<Rightarrow> Inl e | Inr x \<Rightarrow> f x)"

fun type_name :: "json \<Rightarrow> string" where
  "type_name JNull = ''NoneType''"
| "type_name (JBool b) = ''bool''"
| "type_name (JInt i) = ''int''"
| "type_name (JStr s) = ''str''"
| "type_name (JList xs) = ''list''"
| "type_name (JObj kvs) = ''dict''"

text \<open>A name between apostrophes, as Python's messages write it.\<close>

definition quoted :: "string \<Rightarrow> string" where
  "quoted s = [CHR 0x27] @ s @ [CHR 0x27]"

text \<open>The truth value of \<open>v\<close> in \<open>if v:\<close>.\<close>

fun truthy :: "json \<Rightarrow> bool" where
  "truthy JNull = False"
| "truthy (JBool b) = b"
| "truthy (JInt i) = (i \<noteq> 0)"
| "truthy (JStr s) = (s \<noteq> [])"
| "truthy (JList xs) = (xs \<noteq> [])"
| "truthy (JObj kvs) = (kvs \<noteq> [])"

text \<open>\<open>v.get(key, default)\<close>: only a dict has the method.\<close>

fun py_get :: "json \<Rightarrow> string \<Rightarrow> json \<Rightarrow> py_exn + json" where
  "py_get (JObj kvs) key dflt = Inr (case map_of kvs key of Some v \<Rightarrow> v | None \<Rightarrow> dflt)"
| "py_get v key dflt =
     Inl (AttributeError (quoted (type_name v) @ '' object has no attribute '' @ quoted ''get''))"

text \<open>\<open>len(v)\<close>.\<close>

fun py_len :: "json \<Rightarrow> py_exn + nat" where
  "py_len (JStr s) = Inr (length s)"
| "py_len (JList xs) = Inr (length xs)"
| "py_len (JObj kvs) = Inr (length kvs)"
| "py_len v = Inl (TypeError (''object of type '' @ quoted (type_name v) @ '' has no len()''))"

text \<open>The elements \<open>for x in v\<close> visits: a dict gives its keys, a str its characters.\<close>

fun py_iter :: "json \<Rightarrow> py_exn + json list" where
  "py_iter (JList xs) = Inr xs"
| "py_iter (JObj kvs) = Inr (map (\<lambda>kv. JStr (fst kv)) kvs)"
| "py_iter (JStr s) = Inr (map (\<lambda>c. JStr [c]) s)"
| "py_iter v = Inl (TypeError (quoted (type_name v) @ '' object is not iterable''))"

text \<open>\<open>str(n)\<close> for an int, and \<open>{v}\<close> in an f-string.\<close>

function string_of_nat :: "nat \<Rightarrow> string" where
  "string_of_nat n =
     (if n < 10 then [''0123456789'' ! n]
      else string_of_nat (n div 10) @ [''0123456789'' ! (n mod 10)])"
  by pat_completeness auto
termination
  by (relation "measure id") auto

definition string_of_int :: "int \<Rightarrow> string" where
  "string_of_int i = (if i < 0 then ''-'' @ string_of_nat (nat (- i)) else string_of_nat (nat i))"

fun py_format :: "env \<Rightarrow> json \<Rightarrow> string" where
  "py_format env JNull = ''None''"
| "py_format env (JBool b) = (if b then ''True'' else ''False'')"
| "py_format env (JInt i) = string_of_int i"
| "py_format env (JStr s) = s"
| "py_format env v = repr_container env v"

subsection \<open>The combined issue count of \<open>main\<close>\<close>

text \<open>
  The three blocks of the combined-suggestions view, each adding to \<open>issue_count\<close>:
  \<^verbatim>\<open>
      pylint_data = static_analysis.get("pylint")
      if pylint_data and pylint_data.get("success") and pylint_data.get("results"):
          issue_count += len(pylint_data["results"])
  \<close>
\<close>

definition add_pylint :: "static_analysis \<Rightarrow> nat \<Rightarrow> py_exn + nat" where
  "add_pylint static_analysis issue_count =
     (case pylint static_analysis of
        None \<Rightarrow> Inr issue_count
      | Some pylint_data \<Rightarrow>
          (if success pylint_data \<and> truthy (results pylint_data)
           then bindE (py_len (results pylint_data)) (\<lambda>n. Inr (issue_count + n))
           else Inr issue_count))"

text \<open>
  \<^verbatim>\<open>
      bandit_data = static_analysis.get("bandit")
      if bandit_data and bandit_data.get("success"):
          results_b = bandit_data.get("results", {})
          issues = results_b.get("results", [])
          issue_count += len(issues)
  \<close>
\<close>

definition add_bandit :: "static_analysis \<Rightarrow> nat \<Rightarrow> py_exn + nat" where
  "add_bandit static_analysis issue_count =
     (case bandit static_analysis of
        None \<Rightarrow> Inr issue_count
      | Some bandit_data \<Rightarrow>
          (if success bandit_data
           then bindE (py_get (results bandit_data) ''results'' (JList [])) (\<lambda>issues.
                bindE (py_len issues) (\<lambda>n. Inr (issue_count + n)))
           else Inr issue_count))"

text \<open>
  \<^verbatim>\<open>
      eslint_data = static_analysis.get("eslint")
      if eslint_data and eslint_data.get("success") and eslint_data.get("results"):
          for file_result in eslint_data["results"]:
              issue_count += len(file_result.get("messages", []))
  \<close>
\<close>

fun add_messages :: "json list \<Rightarrow> nat \<Rightarrow> py_exn + nat" where
  "add_messages [] issue_count = Inr issue_count"
| "add_messages (file_result # rest) issue_count =
     bindE (py_get file_result ''messages'' (JList [])) (\<lambda>messages.
     bindE (py_len messages) (\<lambda>n. add_messages rest (issue_count + n)))"

definition add_eslint :: "static_analysis \<Rightarrow> nat \<Rightarrow> py_exn + nat" where
  "add_eslint static_analysis issue_count =
     (case eslint static_analysis of
        None \<Rightarrow> Inr issue_count
      | Some eslint_data \<Rightarrow>
          (if success eslint_data \<and> truthy (results eslint_data)
           then bindE (py_iter (results eslint_data)) (\<lambda>file_results.
                add_messages file_results issue_count)
           else Inr issue_count))"

definition combined_issue_count :: "static_analysis \<Rightarrow> py_exn + nat" where
  "combined_issue_count static_analysis =
     bindE (add_pylint static_analysis 0) (\<lambda>n1.
     bindE (add_bandit static_analysis n1) (\<lambda>n2.
     add_eslint static_analysis n2))"

subsection \<open>\<open>download_report\<close>\<close>

text \<open>One line per pylint issue, appended to \<open>report_content\<close>.\<close>

fun pylint_issue_lines :: "env \<Rightarrow> json list \<Rightarrow> string \<Rightarrow> py_exn + string" where
  "pylint_issue_lines env [] report_content = Inr report_content"
| "pylint_issue_lines env (issue # rest) report_content =
     bindE (py_get issue ''line'' (JStr ''N/A'')) (\<lambda>ln.
     bindE (py_get issue ''message'' (JStr ''No message'')) (\<lambda>msg.
     pylint_issue_lines env rest
       (report_content @ ''Line '' @ py_format env ln @ '': '' @ py_format env msg @ ''\<newline>'')))"

text \<open>One line per bandit issue.\<close>

fun bandit_issue_lines :: "env \<Rightarrow> json list \<Rightarrow> string \<Rightarrow> py_exn + string" where
  "bandit_issue_lines env [] report_content = Inr report_content"
| "bandit_issue_lines env (issue # rest) report_content =
     bindE (py_get issue ''line_number'' (JStr ''N/A'')) (\<lambda>ln.
     bindE (py_get issue ''issue_text'' (JStr ''No description'')) (\<lambda>txt.
     bindE (py_get issue ''severity'' (JStr ''LOW'')) (\<lambda>sev.
     bandit_issue_lines env rest
       (report_content @ ''Line '' @ py_format env ln @ '': '' @ py_format env txt @
        '' ('' @ py_format env sev @ '')\<newline>''))))"

definition report_header :: "env \<Rightarrow> string \<Rightarrow> string" where
  "report_header env language =
     ''AI-Powered Code Review Report\<newline>'' @
     ''Generated: '' @ strftime_now env @ ''\<newline>'' @
     ''Language: '' @ language @ ''\<newline>'' @
     ''\<newline>'' @
     ''=== STATIC ANALYSIS RESULTS ===\<newline>''"

definition pylint_section :: "env \<Rightarrow> analyzer_result option \<Rightarrow> string \<Rightarrow> py_exn + string" where
  "pylint_section env pylint_data report_content =
     (case pylint_data of
        None \<Rightarrow> Inr report_content
      | Some d \<Rightarrow>
          (if success d then
             (let rc = report_content @ ''\<newline>--- PYLINT RESULTS ---\<newline>''
              in if truthy (results d)
                 then bindE (py_iter (results d)) (\<lambda>issues. pylint_issue_lines env issues rc)
                 else Inr (rc @ ''No pylint issues found.\<newline>''))
           else Inr report_content))"

definition bandit_section :: "env \<Rightarrow> analyzer_result option \<Rightarrow> string \<Rightarrow> py_exn + string" where
  "bandit_section env bandit_data report_content =
     (case bandit_data of
        None \<Rightarrow> Inr report_content
      | Some d \<Rightarrow>
          (if success d then
             (let rc = report_content @ ''\<newline>--- BANDIT SECURITY RESULTS ---\<newline>''
              in bindE (py_get (results d) ''results'' (JList [])) (\<lambda>issues.
                 if truthy issues
                 then bindE (py_iter issues) (\<lambda>issue_list. bandit_issue_lines env issue_list rc)
                 else Inr (rc @ ''No security issues found.\<newline>'')))
           else Inr report_content))"

definition ai_section :: "ai_commentary \<Rightarrow> string \<Rightarrow> string" where
  "ai_section ai_analysis report_content =
     (if ai_success ai_analysis
      then report_content @ ''\<newline>=== AI ANALYSIS RESULTS ===\<newline>'' @
           ''Model: '' @ (case model_used ai_analysis of Some m \<Rightarrow> m | None \<Rightarrow> ''CodeT5'') @
           ''\<newline>\<newline>'' @ feedback ai_analysis
      else report_content)"

text \<open>
  \<open>download_report\<close>. The error dict has no \<open>language\<close> key and empty \<open>static_analysis\<close>
  and \<open>ai_analysis\<close> dicts, so only the header is written, with language \<open>Unknown\<close>.
  The function has a pylint section, a bandit section and an AI section, and no other.
\<close>

definition download_report :: "env \<Rightarrow> review_result \<Rightarrow> py_exn + string" where
  "download_report env review_results =
     (case review_results of
        ErrorResult msg \<Rightarrow> Inr (report_header env ''Unknown'')
      | Review r \<Rightarrow>
          bindE (pylint_section env (pylint (static r)) (report_header env (review_language r)))
            (\<lambda>rc1. bindE (bandit_section env (bandit (static r)) rc1)
            (\<lambda>rc2. Inr (ai_section (ai r) rc2))))"

section \<open>The issue count as the specification words it\<close>

text \<open>
  The specification's count, to compare \<open>combined_issue_count\<close> with: the sum, over the
  analyzer results that are present, successful and have a non-empty payload, of the
  number of diagnostics. The diagnostics of pylint are the elements of its list, those of
  bandit the elements of the list under \<open>results\<close> of its document, those of eslint the
  elements of the \<open>messages\<close> lists of its per-file results.
\<close>

fun list_items :: "json \<Rightarrow> json list" where
  "list_items (JList xs) = xs"
| "list_items v = []"

fun field_items :: "string \<Rightarrow> json \<Rightarrow> json list" where
  "field_items key (JObj kvs) = (case map_of kvs key of Some v \<Rightarrow> list_items v | None \<Rightarrow> [])"
| "field_items key v = []"

fun spec_diagnostics :: "tool \<Rightarrow> json \<Rightarrow> json list" where
  "spec_diagnostics Pylint payload = list_items payload"
| "spec_diagnostics Bandit payload = field_items ''results'' payload"
| "spec_diagnostics Eslint payload = concat (map (field_items ''messages'') (list_items payload))"
| "spec_diagnostics CodeT5 payload = []"

definition spec_contribution :: "tool \<Rightarrow> analyzer_result option \<Rightarrow> nat" where
  "spec_contribution t entry =
     (case entry of
        None \<Rightarrow> 0
      | Some d \<Rightarrow>
          (if success d \<and> truthy (results d) then length (spec_diagnostics t (results d)) else 0))"

definition spec_issue_count :: "static_analysis \<Rightarrow> nat" where
  "spec_issue_count static_analysis =
     spec_contribution Pylint (pylint static_analysis) +
     spec_contribution Bandit (bandit static_analysis) +
     spec_contribution Eslint (eslint static_analysis)"

text \<open>
  The shapes the tools' payloads have by their interfaces: a list for pylint; for bandit a
  dict whose \<open>results\<close>, when present, is a list; for eslint a list of dicts whose
  \<open>messages\<close>, when present, is a list. Only the payload of a successful result is read.
\<close>

fun is_list :: "json \<Rightarrow> bool" where
  "is_list (JList xs) = True"
| "is_list v = False"

fun has_list_field :: "string \<Rightarrow> json \<Rightarrow> bool" where
  "has_list_field key (JObj kvs) = (case map_of kvs key of Some v \<Rightarrow> is_list v | None \<Rightarrow> True)"
| "has_list_field key v = False"

fun payload_shape :: "tool \<Rightarrow> json \<Rightarrow> bool" where
  "payload_shape Pylint payload = is_list payload"
| "payload_shape Bandit payload = has_list_field ''results'' payload"
| "payload_shape Eslint payload =
     (is_list payload \<and> list_all (has_list_field ''messages'') (list_items payload))"
| "payload_shape CodeT5 payload = True"

definition entry_shape :: "tool \<Rightarrow> analyzer_result option \<Rightarrow> bool" where
  "entry_shape t entry =
     (case entry of
        None \<Rightarrow> True
      | Some d \<Rightarrow> (if success d then payload_shape t (results d) else True))"

definition well_shaped :: "static_analysis \<Rightarrow> bool" where
  "well_shaped static_analysis =
     (entry_shape Pylint (pylint static_analysis) \<and>
      entry_shape Bandit (bandit static_analysis) \<and>
      entry_shape Eslint (eslint static_analysis))"

section \<open>A simulated environment\<close>

text \<open>
  An environment to run the model on. Its tools read the temporary file named in their
  command line and behave by its content: \<open>timeout\<close> makes the run time out, \<open>missing\<close>
  makes the executable not be found, \<open>crash\<close> raises another exception, \<open>garbled\<close>
  prints text that is not JSON, \<open>overlong\<close> prints an integer of 4301 digits. Otherwise
  pylint prints one issue, a blank line and a line that is not JSON, bandit prints a
  document with one issue, and eslint reports one message on \<open>var x = 1\<close> and none on other
  content. Files are written in ASCII, so a text with a character above 127 cannot be
  written. The parser knows the texts the tools print and raises \<open>JSONDecodeError\<close> on any
  other, except that an integer of more than 4300 digits raises \<open>ValueError\<close>, as Python
  does from 3.11 on. The model runtime is missing when the prompt mentions \<open>no-torch\<close> and
  runs out of memory when it mentions \<open>huge\<close>.
\<close>

definition argv_file :: "string list \<Rightarrow> string" where
  "argv_file argv =
     (if hd argv = ''pylint'' then argv ! 1 else if hd argv = ''bandit'' then argv ! 4 else argv ! 2)"

definition eslint_stdout :: string where
  \<open>eslint_stdout =
     ''[{"filePath": "/tmp/tmpa.js", "messages": [{"line": 1, "message": "Unexpected var", "severity": 2, "ruleId": "no-var"}]}]''\<close>

definition eslint_document :: json where
  "eslint_document =
     JList [JObj [(''filePath'', JStr ''/tmp/tmpa.js''),
                  (''messages'',
                   JList [JObj [(''line'', JInt 1), (''message'', JStr ''Unexpected var''),
                                (''severity'', JInt 2), (''ruleId'', JStr ''no-var'')]])]]"

definition pylint_line :: string where
  \<open>pylint_line =
     ''{"type": "convention", "line": 1, "message": "Missing module docstring", "confidence": "HIGH"}''\<close>

definition pylint_issue :: json where
  "pylint_issue =
     JObj [(''type'', JStr ''convention''), (''line'', JInt 1),
           (''message'', JStr ''Missing module docstring''), (''confidence'', JStr ''HIGH'')]"

definition bandit_stdout :: string where
  \<open>bandit_stdout =
     ''{"results": [{"line_number": 1, "issue_text": "Use of eval", "severity": "MEDIUM"}]}''\<close>

definition bandit_document :: json where
  "bandit_document =
     JObj [(''results'',
            JList [JObj [(''line_number'', JInt 1), (''issue_text'', JStr ''Use of eval''),
                         (''severity'', JStr ''MEDIUM'')]])]"

definition long_integer :: string where
  "long_integer = replicate 4301 (CHR ''1'')"

definition sample_stdout :: "string \<Rightarrow> string \<Rightarrow> string" where
  "sample_stdout exe content =
     (if content = ''garbled'' then ''oops''
      else if content = ''overlong'' then long_integer
      else if exe = ''pylint'' then pylint_line @ ''\<newline>\<newline>oops\<newline>''
      else if exe = ''bandit'' then bandit_stdout
      else if content = ''var x = 1'' then eslint_stdout
      else ''[]'')"

definition sample_tool :: "string list \<Rightarrow> (string \<rightharpoonup> string) \<Rightarrow> py_exn + string \<times> string" where
  "sample_tool argv fs =
     (case fs (argv_file argv) of
        None \<Rightarrow> Inl (OtherException ''no input file'')
      | Some content \<Rightarrow>
          (if content = ''timeout'' then Inl (TimeoutExpired ''timed out after 30 seconds'')
           else if content = ''missing'' then Inl (FileNotFoundError ''No such file or directory'')
           else if content = ''crash'' then Inl (OtherException ''boom'')
           else Inr (sample_stdout (hd argv) content, [])))"

definition sample_json_loads :: "string \<Rightarrow> py_exn + json" where
  "sample_json_loads s =
     (if 4300 < length s \<and> list_all (\<lambda>c. c \<in> set ''123456789'') s
      then Inl (ValueError ''Exceeds the limit (4300 digits) for integer string conversion'')
      else (case map_of [(''[]'', JList []), (''{}'', JObj []), (pylint_line, pylint_issue),
                         (bandit_stdout, bandit_document), (eslint_stdout, eslint_document)] s of
              Some v \<Rightarrow> Inr v
            | None \<Rightarrow> Inl (JSONDecodeError ''Expecting value'')))"

definition sample_generate :: "string \<Rightarrow> py_exn + string" where
  "sample_generate p =
     (if contains ''no-torch'' p then Inl (ImportError ''No module named torch'')
      else if contains ''huge'' p then Inl (OtherException ''out of memory'')
      else Inr ''REVIEW: fine '')"

definition sample_env :: env where
  "sample_env =
     \<lparr>tempdir = ''/tmp'', random_names = [''a'', ''b''],
      write_error = (\<lambda>code. if list_ex (\<lambda>c. 128 \<le> (of_char c :: nat)) code
                             then Some (OtherException ''ascii codec cannot encode character'')
                             else None),
      subprocess_run = sample_tool,
      json_loads = sample_json_loads,
      generate = sample_generate,
      timestamp_now = ''2024-01-01 12:00:00.000000'',
      strftime_now = ''2024-01-01 12:00:00'',
      repr_container = (\<lambda>v. ''[...]'')\<rparr>"

definition empty_world :: world where
  "empty_world = \<lparr>files = Map.empty, trace = []\<rparr>"

text \<open>
  The reviews of \<open>x = 1\<close> as Python and of \<open>var x = 1\<close> as JavaScript in the simulated
  environment.
\<close>

definition python_review :: review_result where
  "python_review = fst (review_code sample_env ''x = 1'' ''Python'' empty_world)"

definition js_review :: review_result where
  "js_review = fst (review_code sample_env ''var x = 1'' ''JavaScript'' empty_world)"

section \<open>The report lines of a well-formed issue\<close>

text \<open>
  The line \<open>download_report\<close> writes for an issue that is a dict, as one string: what
  \<open>pylint_issue_lines\<close> and \<open>bandit_issue_lines\<close> append for it.
\<close>

fun is_dict :: "json \<Rightarrow> bool" where
  "is_dict (JObj kvs) = True"
| "is_dict v = False"

fun field :: "json \<Rightarrow> string \<Rightarrow> json \<Rightarrow> json" where
  "field (JObj kvs) key dflt = (case map_of kvs key of Some v \<Rightarrow> v | None \<Rightarrow> dflt)"
| "field v key dflt = dflt"

definition pylint_report_line :: "env \<Rightarrow> json \<Rightarrow> string" where
  "pylint_report_line env issue =
     ''Line '' @ py_format env (field issue ''line'' (JStr ''N/A'')) @ '': '' @
     py_format env (field issue ''message'' (JStr ''No message'')) @ ''\<newline>''"

definition bandit_report_line :: "env \<Rightarrow> json \<Rightarrow> string" where
  "bandit_report_line env issue =
     ''Line '' @ py_format env (field issue ''line_number'' (JStr ''N/A'')) @ '': '' @
     py_format env (field issue ''issue_text'' (JStr ''No description'')) @
     '' ('' @ py_format env (field issue ''severity'' (JStr ''LOW'')) @ '')\<newline>''"

section \<open>Evaluation and shared lemmas\<close>

declare py_split.simps [simp del] string_of_nat.simps [simp del]

lemmas adapter_defs =
  run_pylint_analysis_def run_bandit_analysis_def run_eslint_analysis_def
  pylint_try_def bandit_try_def eslint_try_def
  write_and_run_def NamedTemporaryFile_def tmp_candidates_def cleanup_def log_event_def
  pylint_argv_def bandit_argv_def eslint_argv_def
  completed_def failure_def pylint_parse_def document_parse_def

lemmas sample_defs =
  sample_env_def sample_tool_def sample_stdout_def sample_json_loads_def sample_generate_def
  argv_file_def
  empty_world_def strip_def isspace_def
  pylint_line_def pylint_issue_def bandit_stdout_def bandit_document_def
  eslint_stdout_def eslint_document_def

lemmas review_defs =
  review_code_def supported_languages_def run_static_analysis_def run_ai_analysis_def
  call_huggingface_model_def short_prompt_def create_code_review_prompt_def events_since_def

subsection \<open>The trace\<close>

lemma trace_NamedTemporaryFile:
  "trace (snd (NamedTemporaryFile env suffix w)) = trace w"
  by (simp add: NamedTemporaryFile_def split: list.split)

lemma trace_write_and_run:
  "trace (snd (snd (write_and_run env suffix argv code w))) = trace w"
proof (cases "NamedTemporaryFile env suffix w")
  case (Pair r w1)
  then have "trace w1 = trace w"
    using trace_NamedTemporaryFile [of env suffix w] by simp
  with Pair show ?thesis
    by (simp add: write_and_run_def Let_def split: sum.split option.split)
qed

lemma trace_cleanup: "trace (cleanup temp_file w) = trace w"
  by (simp add: cleanup_def split: option.split)

lemma trace_run_pylint_analysis:
  "trace (snd (run_pylint_analysis env code w)) = trace w @ [Invoke Pylint]"
proof -
  obtain r tf w1
    where b: "write_and_run env ''.py'' pylint_argv code (log_event (Invoke Pylint) w) = (r, tf, w1)"
    by (metis prod_cases3)
  then have "trace w1 = trace w @ [Invoke Pylint]"
    using trace_write_and_run [of env "''.py''" pylint_argv code "log_event (Invoke Pylint) w"]
    by (simp add: log_event_def)
  with b show ?thesis
    by (simp add: run_pylint_analysis_def trace_cleanup split: sum.split prod.split)
qed

lemma trace_run_bandit_analysis:
  "trace (snd (run_bandit_analysis env code w)) = trace w @ [Invoke Bandit]"
proof -
  obtain r tf w1
    where b: "write_and_run env ''.py'' bandit_argv code (log_event (Invoke Bandit) w) = (r, tf, w1)"
    by (metis prod_cases3)
  then have "trace w1 = trace w @ [Invoke Bandit]"
    using trace_write_and_run [of env "''.py''" bandit_argv code "log_event (Invoke Bandit) w"]
    by (simp add: log_event_def)
  with b show ?thesis
    by (simp add: run_bandit_analysis_def trace_cleanup split: sum.split prod.split)
qed

lemma trace_run_eslint_analysis:
  "trace (snd (run_eslint_analysis env code w)) = trace w @ [Invoke Eslint]"
proof -
  obtain r tf w1
    where b: "write_and_run env ''.js'' eslint_argv code (log_event (Invoke Eslint) w) = (r, tf, w1)"
    by (metis prod_cases3)
  then have "trace w1 = trace w @ [Invoke Eslint]"
    using trace_write_and_run [of env "''.js''" eslint_argv code "log_event (Invoke Eslint) w"]
    by (simp add: log_event_def)
  with b show ?thesis
    by (simp add: run_eslint_analysis_def trace_cleanup split: sum.split prod.split)
qed

lemma run_static_analysis_Python:
  "\<exists>p b w1. run_static_analysis env code ''Python'' w =
      (\<lparr>sa_language = ''Python'', pylint = Some p, bandit = Some b, eslint = None\<rparr>, w1) \<and>
      trace w1 = trace w @ [Info ''Running Pylint + Bandit...'', Invoke Pylint, Invoke Bandit]"
proof -
  let ?w0 = "log_event (Info ''Running Pylint + Bandit...'') w"
  obtain p w1 where p: "run_pylint_analysis env code ?w0 = (p, w1)"
    by (cases "run_pylint_analysis env code ?w0")
  obtain b w2 where b: "run_bandit_analysis env code w1 = (b, w2)"
    by (cases "run_bandit_analysis env code w1")
  have "trace w1 = trace ?w0 @ [Invoke Pylint]"
    using trace_run_pylint_analysis [of env code ?w0] p by simp
  moreover have "trace w2 = trace w1 @ [Invoke Bandit]"
    using trace_run_bandit_analysis [of env code w1] b by simp
  ultimately have
    "trace w2 = trace w @ [Info ''Running Pylint + Bandit...'', Invoke Pylint, Invoke Bandit]"
    by (simp add: log_event_def)
  with p b show ?thesis
    by (simp add: run_static_analysis_def)
qed

lemma run_static_analysis_JavaScript:
  "\<exists>e w1. run_static_analysis env code ''JavaScript'' w =
      (\<lparr>sa_language = ''JavaScript'', pylint = None, bandit = None, eslint = Some e\<rparr>, w1) \<and>
      trace w1 = trace w @ [Info ''Running ESLint...'', Invoke Eslint]"
proof -
  let ?w0 = "log_event (Info ''Running ESLint...'') w"
  obtain e w1 where e: "run_eslint_analysis env code ?w0 = (e, w1)"
    by (cases "run_eslint_analysis env code ?w0")
  have "trace w1 = trace w @ [Info ''Running ESLint...'', Invoke Eslint]"
    using trace_run_eslint_analysis [of env code ?w0] e by (simp add: log_event_def)
  with e show ?thesis
    by (simp add: run_static_analysis_def)
qed

lemma trace_run_static_analysis:
  assumes "language = ''Python'' \<or> language = ''JavaScript''"
  shows "\<exists>new. trace (snd (run_static_analysis env code language w)) = trace w @ new \<and>
               Invoke CodeT5 \<notin> set new"
  using assms
proof
  assume l: "language = ''Python''"
  obtain p b w1 where "run_static_analysis env code ''Python'' w =
      (\<lparr>sa_language = ''Python'', pylint = Some p, bandit = Some b, eslint = None\<rparr>, w1)"
    and "trace w1 = trace w @ [Info ''Running Pylint + Bandit...'', Invoke Pylint, Invoke Bandit]"
    using run_static_analysis_Python [of env code w] by blast
  with l show ?thesis by simp
next
  assume l: "language = ''JavaScript''"
  obtain e w1 where "run_static_analysis env code ''JavaScript'' w =
      (\<lparr>sa_language = ''JavaScript'', pylint = None, bandit = None, eslint = Some e\<rparr>, w1)"
    and "trace w1 = trace w @ [Info ''Running ESLint...'', Invoke Eslint]"
    using run_static_analysis_JavaScript [of env code w] by blast
  with l show ?thesis by simp
qed

lemma run_ai_analysis_succeeds:
  "\<exists>s. fst (call_huggingface_model env (create_code_review_prompt code language) w0) = Inr s \<and>
       run_ai_analysis env code language w =
         (\<lparr>ai_success = True, feedback = s, model_used = Some ''Salesforce/codet5-base'',
           ai_error = None\<rparr>,
          w\<lparr>trace := trace w @ [Info ''Running CodeT5 AI analysis...'', Invoke CodeT5]\<rparr>)"
  by (simp add: run_ai_analysis_def call_huggingface_model_def Let_def log_event_def
           split: sum.split py_exn.split)

lemma supported_cases:
  "language = ''Python'' \<or> language = ''JavaScript'' \<Longrightarrow> language \<in> set supported_languages"
  by (auto simp: supported_languages_def)

subsection \<open>The result of an adapter, by what its \<open>try\<close> got\<close>

lemma run_pylint_analysis_result:
  "fst (run_pylint_analysis env code w) =
     (case pylint_try env code w of
        Inl e \<Rightarrow> pylint_except e
      | Inr (out, err) \<Rightarrow>
          (case pylint_parse env out of
             Inl e \<Rightarrow> pylint_except e
           | Inr payload \<Rightarrow> completed payload out err))"
  by (cases "write_and_run env ''.py'' pylint_argv code (log_event (Invoke Pylint) w)")
     (auto simp: run_pylint_analysis_def pylint_try_def split: sum.split)

lemma run_bandit_analysis_result:
  "fst (run_bandit_analysis env code w) =
     (case bandit_try env code w of
        Inl e \<Rightarrow> bandit_except e
      | Inr (out, err) \<Rightarrow>
          (case document_parse env (JObj []) out of
             Inl e \<Rightarrow> bandit_except e
           | Inr payload \<Rightarrow> completed payload out err))"
  by (cases "write_and_run env ''.py'' bandit_argv code (log_event (Invoke Bandit) w)")
     (auto simp: run_bandit_analysis_def bandit_try_def split: sum.split)

lemma run_eslint_analysis_result:
  "fst (run_eslint_analysis env code w) =
     (case eslint_try env code w of
        Inl e \<Rightarrow> eslint_except e
      | Inr (out, err) \<Rightarrow>
          (case document_parse env (JList []) out of
             Inl e \<Rightarrow> eslint_except e
           | Inr payload \<Rightarrow> completed payload out err))"
  by (cases "write_and_run env ''.js'' eslint_argv code (log_event (Invoke Eslint) w)")
     (auto simp: run_eslint_analysis_def eslint_try_def split: sum.split)

text \<open>
  When a candidate path is free and the code can be written, what the \<open>try\<close> gets is what
  \<open>subprocess.run\<close> does on the command line with that path.
\<close>

lemma write_and_run_reaches_subprocess:
  assumes "filter (\<lambda>n. files w n = None) (tmp_candidates env suffix) = name # rest"
    and "write_error env code = None"
  shows "fst (write_and_run env suffix argv code w) =
           subprocess_run env (argv name) ((files w)(name \<mapsto> code))"
  using assms by (simp add: write_and_run_def NamedTemporaryFile_def Let_def)

text \<open>
  The loop over the lines: when \<open>json.loads\<close> raises nothing but \<open>JSONDecodeError\<close> on the
  non-blank lines, it keeps the values of the lines that parse, in order; otherwise it
  raises what \<open>json.loads\<close> raised on the first line where it raised something else.
\<close>

lemma parse_lines_decodes:
  "list_all (decodes env) (filter (\<lambda>line. strip line \<noteq> []) ls) \<Longrightarrow>
     parse_lines (json_loads env) ls acc =
       Inr (acc @ List.map_filter (loads_value env) (filter (\<lambda>line. strip line \<noteq> []) ls))"
proof (induction ls arbitrary: acc)
  case Nil
  then show ?case by (simp add: List.map_filter_simps)
next
  case (Cons line rest)
  show ?case
  proof (cases "strip line = []")
    case True
    with Cons show ?thesis by simp
  next
    case False
    with Cons.prems have d: "decodes env line"
      and r: "list_all (decodes env) (filter (\<lambda>line. strip line \<noteq> []) rest)"
      by simp_all
    show ?thesis
    proof (cases "json_loads env line")
      case (Inl e)
      with d have "is_JSONDecodeError e" by (simp add: decodes_def)
      with False Inl show ?thesis
        using Cons.IH [OF r, of acc]
        by (simp add: List.map_filter_simps loads_value_def)
    next
      case (Inr v)
      with False show ?thesis
        using Cons.IH [OF r, of "acc @ [v]"]
        by (simp add: List.map_filter_simps loads_value_def)
    qed
  qed
qed

lemma parse_lines_raises:
  "find (\<lambda>line. \<not> decodes env line) (filter (\<lambda>line. strip line \<noteq> []) ls) = Some l \<Longrightarrow>
     json_loads env l = Inl e \<Longrightarrow> parse_lines (json_loads env) ls acc = Inl e"
proof (induction ls arbitrary: acc)
  case Nil
  then show ?case by simp
next
  case (Cons line rest)
  show ?case
  proof (cases "strip line = []")
    case True
    with Cons show ?thesis by simp
  next
    case False
    show ?thesis
    proof (cases "decodes env line")
      case True
      with False Cons.prems
      have f: "find (\<lambda>line. \<not> decodes env line) (filter (\<lambda>line. strip line \<noteq> []) rest) = Some l"
        by simp
      from True False show ?thesis
        using Cons.IH [OF f Cons.prems(2)]
        by (cases "json_loads env line") (simp_all add: decodes_def)
    next
      case nd: False
      with False Cons.prems have "l = line" by simp
      with nd Cons.prems(2) False show ?thesis
        by (simp add: decodes_def)
    qed
  qed
qed

lemma pylint_parse_decodes:
  "list_all (decodes env) (stdout_lines out) \<Longrightarrow>
     pylint_parse env out = Inr (JList (List.map_filter (loads_value env) (stdout_lines out)))"
  using parse_lines_decodes [of env "split_on CHR 0x0A (strip out)" "[]"]
  by (cases "strip out = []")
     (simp_all add: pylint_parse_def stdout_lines_def List.map_filter_simps)

lemma pylint_parse_raises:
  "find (\<lambda>line. \<not> decodes env line) (stdout_lines out) = Some l \<Longrightarrow>
     json_loads env l = Inl e \<Longrightarrow> pylint_parse env out = Inl e"
  using parse_lines_raises [of env "split_on CHR 0x0A (strip out)" l e "[]"]
  by (cases "strip out = []") (simp_all add: pylint_parse_def stdout_lines_def)

lemma document_parse_decodes:
  "strip out = [] \<or> decodes env out \<Longrightarrow>
     document_parse env fallback out =
       Inr (if strip out = [] then fallback
            else case loads_value env out of Some v \<Rightarrow> v | None \<Rightarrow> fallback)"
  by (cases "json_loads env out")
     (auto simp: document_parse_def decodes_def loads_value_def)

lemma document_parse_raises:
  "strip out \<noteq> [] \<Longrightarrow> json_loads env out = Inl e \<Longrightarrow> \<not> is_JSONDecodeError e \<Longrightarrow>
     document_parse env fallback out = Inl e"
  by (simp add: document_parse_def)

text \<open>An integer of 4301 digits, as one line without blanks.\<close>

lemma split_on_absent: "c \<notin> set s \<Longrightarrow> split_on c s = [s]"
  by (induction s) auto

lemma long_integer_facts:
  "length long_integer = 4301"
  "list_all (\<lambda>c. c \<in> set ''123456789'') long_integer"
  "strip long_integer = long_integer"
  "long_integer \<noteq> []"
  "split_on CHR 0x0A long_integer = [long_integer]"
proof -
  show "length long_integer = 4301"
    by (simp add: long_integer_def)
  show "list_all (\<lambda>c. c \<in> set ''123456789'') long_integer"
    unfolding long_integer_def list_all_iff by simp
  have "\<not> isspace CHR ''1''"
    by (simp add: isspace_def)
  then show "strip long_integer = long_integer"
    unfolding long_integer_def strip_def by simp
  show "long_integer \<noteq> []"
    unfolding long_integer_def by simp
  have "CHR 0x0A \<notin> set long_integer"
    unfolding long_integer_def by simp
  then show "split_on CHR 0x0A long_integer = [long_integer]"
    by (rule split_on_absent)
qed

lemma sample_json_loads_long_integer:
  "sample_json_loads long_integer =
     Inl (ValueError ''Exceeds the limit (4300 digits) for integer string conversion'')"
  using long_integer_facts(1,2) by (simp add: sample_json_loads_def)

subsection \<open>The temporary file\<close>

lemma NamedTemporaryFile_fresh:
  assumes "NamedTemporaryFile env suffix w = (Inr name, w1)"
  shows "files w name = None \<and> name \<noteq> [] \<and> w1 = w\<lparr>files := (files w)(name \<mapsto> [])\<rparr>"
proof -
  from assms obtain rest
    where f: "filter (\<lambda>n. files w n = None) (tmp_candidates env suffix) = name # rest"
      and w1: "w1 = w\<lparr>files := (files w)(name \<mapsto> [])\<rparr>"
    by (auto simp: NamedTemporaryFile_def split: list.splits)
  from f have "name \<in> set (filter (\<lambda>n. files w n = None) (tmp_candidates env suffix))"
    by simp
  then have "files w name = None" and "name \<in> set (tmp_candidates env suffix)"
    by simp_all
  then show ?thesis
    using w1 by (auto simp: tmp_candidates_def)
qed

lemma NamedTemporaryFile_failed:
  "NamedTemporaryFile env suffix w = (Inl e, w1) \<Longrightarrow> w1 = w"
  by (auto simp: NamedTemporaryFile_def split: list.splits)

lemma write_and_run_cleanup:
  assumes "write_error env code = None"
  shows "files (cleanup (fst (snd (write_and_run env suffix argv code w)))
                  (snd (snd (write_and_run env suffix argv code w)))) = files w"
proof (cases "NamedTemporaryFile env suffix w")
  case (Pair r w1)
  show ?thesis
  proof (cases r)
    case (Inl e)
    with Pair have "w1 = w" using NamedTemporaryFile_failed by simp
    with Pair Inl show ?thesis
      by (simp add: write_and_run_def cleanup_def)
  next
    case (Inr name)
    with Pair have "files w name = None" "name \<noteq> []" "w1 = w\<lparr>files := (files w)(name \<mapsto> [])\<rparr>"
      using NamedTemporaryFile_fresh [of env suffix w name w1] by simp_all
    with Pair Inr assms show ?thesis
      by (simp add: write_and_run_def cleanup_def Let_def fun_upd_idem)
  qed
qed

subsection \<open>Counting and reporting over well-formed payloads\<close>

lemma py_len_list_items: "is_list v \<Longrightarrow> py_len v = Inr (length (list_items v))"
  by (cases v) simp_all

lemma py_iter_list_items: "is_list v \<Longrightarrow> py_iter v = Inr (list_items v)"
  by (cases v) simp_all

lemma field_count:
  "has_list_field key v \<Longrightarrow>
     bindE (py_get v key (JList [])) (\<lambda>xs. bindE (py_len xs) f) = f (length (field_items key v))"
proof (cases v)
  case (JObj kvs)
  assume "has_list_field key v"
  with JObj show ?thesis
    by (cases "map_of kvs key") (simp_all add: bindE_def py_len_list_items)
qed simp_all

lemma add_messages_sum:
  "list_all (has_list_field ''messages'') fs \<Longrightarrow>
     add_messages fs n = Inr (n + length (concat (map (field_items ''messages'') fs)))"
proof (induction fs arbitrary: n)
  case Nil
  then show ?case by simp
next
  case (Cons f fs)
  then have "has_list_field ''messages'' f" and "list_all (has_list_field ''messages'') fs"
    by simp_all
  then show ?case
    using Cons.IH [of "n + length (field_items ''messages'' f)"]
    by (simp add: field_count)
qed

lemma add_pylint_spec:
  "entry_shape Pylint (pylint sa) \<Longrightarrow>
     add_pylint sa n = Inr (n + spec_contribution Pylint (pylint sa))"
  by (cases "pylint sa")
     (auto simp: add_pylint_def spec_contribution_def entry_shape_def bindE_def
        py_len_list_items split: if_splits)

lemma add_bandit_spec:
  "entry_shape Bandit (bandit sa) \<Longrightarrow>
     add_bandit sa n = Inr (n + spec_contribution Bandit (bandit sa))"
proof (cases "bandit sa")
  case None
  then show ?thesis by (simp add: add_bandit_def spec_contribution_def)
next
  case (Some d)
  assume shape: "entry_shape Bandit (bandit sa)"
  show ?thesis
  proof (cases "success d")
    case False
    with Some show ?thesis by (simp add: add_bandit_def spec_contribution_def)
  next
    case True
    with Some shape have h: "has_list_field ''results'' (results d)"
      by (simp add: entry_shape_def)
    have no_items: "\<not> truthy (results d) \<Longrightarrow> field_items ''results'' (results d) = []"
      using h by (cases "results d") auto
    from Some True h show ?thesis
      using field_count [OF h, of "\<lambda>k. Inr (n + k)"] no_items
      by (simp add: add_bandit_def spec_contribution_def)
  qed
qed

lemma add_eslint_spec:
  "entry_shape Eslint (eslint sa) \<Longrightarrow>
     add_eslint sa n = Inr (n + spec_contribution Eslint (eslint sa))"
  by (cases "eslint sa")
     (auto simp: add_eslint_def spec_contribution_def entry_shape_def bindE_def
        py_iter_list_items add_messages_sum split: if_splits)

lemma py_get_dict: "is_dict v \<Longrightarrow> py_get v key dflt = Inr (field v key dflt)"
  by (cases v) simp_all

lemma pylint_issue_lines_dicts:
  "list_all is_dict issues \<Longrightarrow>
     pylint_issue_lines env issues rc = Inr (rc @ concat (map (pylint_report_line env) issues))"
  by (induction issues arbitrary: rc)
     (simp_all add: py_get_dict bindE_def pylint_report_line_def)

lemma bandit_issue_lines_dicts:
  "list_all is_dict issues \<Longrightarrow>
     bandit_issue_lines env issues rc = Inr (rc @ concat (map (bandit_report_line env) issues))"
  by (induction issues arbitrary: rc)
     (simp_all add: py_get_dict bindE_def bandit_report_line_def)

section \<open>Input validation\<close>

text \<open>
  C1. When the code is empty or whitespace-only, \<open>review_code\<close> returns the error
  \<open>No code provided\<close>; when the code is not blank and the language is neither \<open>Python\<close>
  nor \<open>JavaScript\<close>, it returns the error \<open>Unsupported language: \<close> followed by that
  language. In both cases the world is returned as it was: no adapter and no AI
  invocation is added to the trace, and no file is touched.
\<close>

theorem review_code_rejects:
  "(strip code = [] \<longrightarrow>
      review_code env code language w = (ErrorResult ''No code provided'', w)) \<and>
   (strip code \<noteq> [] \<and> language \<noteq> ''Python'' \<and> language \<noteq> ''JavaScript'' \<longrightarrow>
      review_code env code language w =
        (ErrorResult (''Unsupported language: '' @ language), w))"
  by (simp add: review_code_def supported_languages_def)

theorem review_code_rejects_witness:
  "strip '' \<newline>'' = [] \<and>
   review_code sample_env '' \<newline>'' ''Python'' empty_world =
     (ErrorResult ''No code provided'', empty_world) \<and>
   strip ''puts 1'' \<noteq> [] \<and> ''Ruby'' \<noteq> ''Python'' \<and> ''Ruby'' \<noteq> ''JavaScript'' \<and>
   review_code sample_env ''puts 1'' ''Ruby'' empty_world =
     (ErrorResult ''Unsupported language: Ruby'', empty_world)"
  using review_code_rejects [of "'' \<newline>''" sample_env "''Python''" empty_world]
        review_code_rejects [of "''puts 1''" sample_env "''Ruby''" empty_world]
  by (simp add: strip_def isspace_def)

section \<open>Dispatch by language\<close>



section \<open>The AI commentary is always attempted\<close>

text \<open>
  C3. For code that is not blank and language \<open>Python\<close> or \<open>JavaScript\<close>, whatever the
  environment makes the adapters return, \<open>review_code\<close> returns the review made of the
  language, the static-analysis mapping that \<open>run_static_analysis\<close> returned, the record
  that \<open>run_ai_analysis\<close> returned when run after it, and the timestamp; and among the
  events the run added to the trace, the AI invoker occurs exactly once.
\<close>

theorem ai_commentary_unconditional:
  assumes "strip code \<noteq> []" and "language = ''Python'' \<or> language = ''JavaScript''"
  shows "review_code env code language w =
           (Review \<lparr>review_language = language,
                    static = fst (run_static_analysis env code language w),
                    ai = fst (run_ai_analysis env code language
                                (snd (run_static_analysis env code language w))),
                    timestamp = timestamp_now env\<rparr>,
            snd (run_ai_analysis env code language
                   (snd (run_static_analysis env code language w)))) \<and>
         count_list (events_since w (snd (review_code env code language w))) (Invoke CodeT5) = 1"
proof -
  obtain sa w1 where s: "run_static_analysis env code language w = (sa, w1)"
    by (cases "run_static_analysis env code language w")
  obtain new where n: "trace w1 = trace w @ new" "Invoke CodeT5 \<notin> set new"
    using trace_run_static_analysis [OF assms(2), of env code w] s by auto
  obtain a w2 where a: "run_ai_analysis env code language w1 = (a, w2)"
    by (cases "run_ai_analysis env code language w1")
  have "trace w2 = trace w1 @ [Info ''Running CodeT5 AI analysis...'', Invoke CodeT5]"
    using run_ai_analysis_succeeds [of env code language w1 w1] a by auto
  with n have "events_since w w2 = new @ [Info ''Running CodeT5 AI analysis...'', Invoke CodeT5]"
    by (simp add: events_since_def)
  with n(2) have "count_list (events_since w w2) (Invoke CodeT5) = 1"
    by (simp add: count_list_0_iff)
  moreover have "review_code env code language w =
             (Review \<lparr>review_language = language, static = sa, ai = a,
                      timestamp = timestamp_now env\<rparr>, w2)"
    using assms s a supported_cases [OF assms(2)] by (simp add: review_code_def)
  ultimately show ?thesis
    using s a by simp
qed

theorem ai_commentary_unconditional_witness:
  "strip ''missing'' \<noteq> [] \<and> (''Python'' = ''Python'' \<or> ''Python'' = ''JavaScript'') \<and>
   fst (review_code sample_env ''missing'' ''Python'' empty_world) =
      Review \<lparr>review_language = ''Python'',
        static = \<lparr>sa_language = ''Python'',
           pylint = Some \<lparr>success = False, results = JList [],
                  error = Some ''pylint not found. Run: pip install pylint'',
                  raw_output = None, errors = None\<rparr>,
           bandit = Some \<lparr>success = False, results = JObj [],
                  error = Some ''bandit not found. Run: pip install bandit'',
                  raw_output = None, errors = None\<rparr>,
           eslint = None\<rparr>,
        ai = \<lparr>ai_success = True, feedback = ''fine'',
               model_used = Some ''Salesforce/codet5-base'', ai_error = None\<rparr>,
        timestamp = ''2024-01-01 12:00:00.000000''\<rparr> \<and>
   count_list (events_since empty_world (snd (review_code sample_env ''missing'' ''Python'' empty_world)))
     (Invoke CodeT5) = 1"
  using ai_commentary_unconditional [of "''missing''" "''Python''" sample_env empty_world]
  by (simp add: review_defs adapter_defs sample_defs Let_def py_split.simps)

section \<open>Adapter failures\<close>

text \<open>
  C4. For each of the three adapters and every code: when the \<open>try\<close> raises, the result
  has \<open>success = False\<close>, the empty payload of that adapter (\<open>[]\<close> for pylint and eslint,
  \<open>{}\<close> for bandit) and, as its error, the adapter's timeout message when the exception is
  \<open>TimeoutExpired\<close>, its message naming the install command when it is
  \<open>FileNotFoundError\<close>, and the exception's own message otherwise.
\<close>

theorem adapter_failure_mapping:
  "(pylint_try env code w = Inl e \<longrightarrow>
      fst (run_pylint_analysis env code w) =
        \<lparr>success = False, results = JList [],
         error = Some (if is_TimeoutExpired e then ''Pylint timed out''
                       else if is_FileNotFoundError e
                            then ''pylint not found. Run: pip install pylint''
                       else exn_str e),
         raw_output = None, errors = None\<rparr>) \<and>
   (bandit_try env code w = Inl e \<longrightarrow>
      fst (run_bandit_analysis env code w) =
        \<lparr>success = False, results = JObj [],
         error = Some (if is_TimeoutExpired e then ''Bandit timed out''
                       else if is_FileNotFoundError e
                            then ''bandit not found. Run: pip install bandit''
                       else exn_str e),
         raw_output = None, errors = None\<rparr>) \<and>
   (eslint_try env code w = Inl e \<longrightarrow>
      fst (run_eslint_analysis env code w) =
        \<lparr>success = False, results = JList [],
         error = Some (if is_TimeoutExpired e then ''ESLint timed out''
                       else if is_FileNotFoundError e
                            then ''ESLint/Node not found. Install Node.js + npm install -g eslint''
                       else exn_str e),
         raw_output = None, errors = None\<rparr>)"
  by (cases e)
     (simp_all add: run_pylint_analysis_result run_bandit_analysis_result
        run_eslint_analysis_result failure_def)

theorem adapter_failure_mapping_witness:
  "pylint_try sample_env ''timeout'' empty_world = Inl (TimeoutExpired ''timed out after 30 seconds'') \<and>
   fst (run_pylint_analysis sample_env ''timeout'' empty_world) =
     \<lparr>success = False, results = JList [], error = Some ''Pylint timed out'',
      raw_output = None, errors = None\<rparr> \<and>
   bandit_try sample_env ''timeout'' empty_world = Inl (TimeoutExpired ''timed out after 30 seconds'') \<and>
   fst (run_bandit_analysis sample_env ''timeout'' empty_world) =
     \<lparr>success = False, results = JObj [], error = Some ''Bandit timed out'',
      raw_output = None, errors = None\<rparr> \<and>
   eslint_try sample_env ''timeout'' empty_world = Inl (TimeoutExpired ''timed out after 30 seconds'') \<and>
   fst (run_eslint_analysis sample_env ''timeout'' empty_world) =
     \<lparr>success = False, results = JList [], error = Some ''ESLint timed out'',
      raw_output = None, errors = None\<rparr> \<and>
   pylint_try sample_env ''missing'' empty_world = Inl (FileNotFoundError ''No such file or directory'') \<and>
   fst (run_pylint_analysis sample_env ''missing'' empty_world) =
     \<lparr>success = False, results = JList [],
      error = Some ''pylint not found. Run: pip install pylint'',
      raw_output = None, errors = None\<rparr> \<and>
   bandit_try sample_env ''missing'' empty_world = Inl (FileNotFoundError ''No such file or directory'') \<and>
   fst (run_bandit_analysis sample_env ''missing'' empty_world) =
     \<lparr>success = False, results = JObj [],
      error = Some ''bandit not found. Run: pip install bandit'',
      raw_output = None, errors = None\<rparr> \<and>
   eslint_try sample_env ''missing'' empty_world = Inl (FileNotFoundError ''No such file or directory'') \<and>
   fst (run_eslint_analysis sample_env ''missing'' empty_world) =
     \<lparr>success = False, results = JList [],
      error = Some ''ESLint/Node not found. Install Node.js + npm install -g eslint'',
      raw_output = None, errors = None\<rparr> \<and>
   pylint_try sample_env ''crash'' empty_world = Inl (OtherException ''boom'') \<and>
   fst (run_pylint_analysis sample_env ''crash'' empty_world) =
     \<lparr>success = False, results = JList [], error = Some ''boom'',
      raw_output = None, errors = None\<rparr> \<and>
   bandit_try sample_env ''crash'' empty_world = Inl (OtherException ''boom'') \<and>
   fst (run_bandit_analysis sample_env ''crash'' empty_world) =
     \<lparr>success = False, results = JObj [], error = Some ''boom'',
      raw_output = None, errors = None\<rparr> \<and>
   eslint_try sample_env ''crash'' empty_world = Inl (OtherException ''boom'') \<and>
   fst (run_eslint_analysis sample_env ''crash'' empty_world) =
     \<lparr>success = False, results = JList [], error = Some ''boom'',
      raw_output = None, errors = None\<rparr>"
proof -
  have t: "pylint_try sample_env ''timeout'' empty_world = Inl (TimeoutExpired ''timed out after 30 seconds'')"
          "bandit_try sample_env ''timeout'' empty_world = Inl (TimeoutExpired ''timed out after 30 seconds'')"
          "eslint_try sample_env ''timeout'' empty_world = Inl (TimeoutExpired ''timed out after 30 seconds'')"
    by (simp_all add: adapter_defs sample_defs Let_def)
  have m: "pylint_try sample_env ''missing'' empty_world = Inl (FileNotFoundError ''No such file or directory'')"
          "bandit_try sample_env ''missing'' empty_world = Inl (FileNotFoundError ''No such file or directory'')"
          "eslint_try sample_env ''missing'' empty_world = Inl (FileNotFoundError ''No such file or directory'')"
    by (simp_all add: adapter_defs sample_defs Let_def)
  have c: "pylint_try sample_env ''crash'' empty_world = Inl (OtherException ''boom'')"
          "bandit_try sample_env ''crash'' empty_world = Inl (OtherException ''boom'')"
          "eslint_try sample_env ''crash'' empty_world = Inl (OtherException ''boom'')"
    by (simp_all add: adapter_defs sample_defs Let_def)
  show ?thesis
    using t m c
      adapter_failure_mapping [of sample_env "''timeout''" empty_world
         "TimeoutExpired ''timed out after 30 seconds''"]
      adapter_failure_mapping [of sample_env "''missing''" empty_world
         "FileNotFoundError ''No such file or directory''"]
      adapter_failure_mapping [of sample_env "''crash''" empty_world "OtherException ''boom''"]
    by simp
qed

section \<open>Malformed tool output\<close>

text \<open>
  C5, as stated, fails: the tools complete and print an integer of 4301 digits, on which
  \<open>json.loads\<close> raises a \<open>ValueError\<close> that is not a \<open>JSONDecodeError\<close>; each adapter then
  returns \<open>success = False\<close> with that exception's message, an empty payload and no
  \<open>raw_output\<close>.
\<close>

theorem adapter_parse_counterexample:
  "pylint_try sample_env ''overlong'' empty_world = Inr (long_integer, []) \<and>
   fst (run_pylint_analysis sample_env ''overlong'' empty_world) =
     \<lparr>success = False, results = JList [],
      error = Some ''Exceeds the limit (4300 digits) for integer string conversion'',
      raw_output = None, errors = None\<rparr> \<and>
   bandit_try sample_env ''overlong'' empty_world = Inr (long_integer, []) \<and>
   fst (run_bandit_analysis sample_env ''overlong'' empty_world) =
     \<lparr>success = False, results = JObj [],
      error = Some ''Exceeds the limit (4300 digits) for integer string conversion'',
      raw_output = None, errors = None\<rparr> \<and>
   eslint_try sample_env ''overlong'' empty_world = Inr (long_integer, []) \<and>
   fst (run_eslint_analysis sample_env ''overlong'' empty_world) =
     \<lparr>success = False, results = JList [],
      error = Some ''Exceeds the limit (4300 digits) for integer string conversion'',
      raw_output = None, errors = None\<rparr>"
proof -
  have p: "pylint_try sample_env ''overlong'' empty_world = Inr (long_integer, [])"
    by (simp add: adapter_defs sample_env_def sample_tool_def sample_stdout_def argv_file_def
          empty_world_def Let_def)
  have b: "bandit_try sample_env ''overlong'' empty_world = Inr (long_integer, [])"
    by (simp add: adapter_defs sample_env_def sample_tool_def sample_stdout_def argv_file_def
          empty_world_def Let_def)
  have e: "eslint_try sample_env ''overlong'' empty_world = Inr (long_integer, [])"
    by (simp add: adapter_defs sample_env_def sample_tool_def sample_stdout_def argv_file_def
          empty_world_def Let_def)
  have l: "json_loads sample_env long_integer =
             Inl (ValueError ''Exceeds the limit (4300 digits) for integer string conversion'')"
    by (simp add: sample_env_def sample_json_loads_long_integer)
  have pp: "pylint_parse sample_env long_integer =
             Inl (ValueError ''Exceeds the limit (4300 digits) for integer string conversion'')"
    by (simp add: pylint_parse_def long_integer_facts l)
  have dp: "document_parse sample_env fallback long_integer =
             Inl (ValueError ''Exceeds the limit (4300 digits) for integer string conversion'')"
    for fallback
    by (simp add: document_parse_def long_integer_facts l)
  show ?thesis
    by (simp add: p b e pp dp run_pylint_analysis_result run_bandit_analysis_result
          run_eslint_analysis_result failure_def)
qed

text \<open>
  C5, amended. For each adapter and every stdout of a completed run on which
  \<open>json.loads\<close> raises nothing but \<open>JSONDecodeError\<close> (on each non-blank line of the
  stripped stdout for pylint, on the whole stdout for bandit and eslint): the result has
  \<open>success = True\<close> and keeps the stdout as \<open>raw_output\<close>; the pylint payload is the list
  of the values of the non-blank lines that parse, in order, with the others left out;
  the bandit and eslint payload is the value of the whole stdout, and the empty \<open>{}\<close> or
  \<open>[]\<close> when the stdout is blank or does not parse. When \<open>json.loads\<close> raises another
  exception (for pylint, on the first line where it does), the adapter returns
  \<open>success = False\<close> with its empty payload and the message its \<open>except\<close> clauses give
  for that exception.
\<close>

theorem adapter_parse_tolerant:
  "(pylint_try env code w = Inr (out, err) \<and> list_all (decodes env) (stdout_lines out) \<longrightarrow>
      fst (run_pylint_analysis env code w) =
        \<lparr>success = True,
         results = JList (List.map_filter (loads_value env) (stdout_lines out)),
         error = None, raw_output = Some out, errors = Some err\<rparr>) \<and>
   (bandit_try env code w = Inr (out, err) \<and> (strip out = [] \<or> decodes env out) \<longrightarrow>
      fst (run_bandit_analysis env code w) =
        \<lparr>success = True,
         results = (if strip out = [] then JObj []
                    else case loads_value env out of Some v \<Rightarrow> v | None \<Rightarrow> JObj []),
         error = None, raw_output = Some out, errors = Some err\<rparr>) \<and>
   (eslint_try env code w = Inr (out, err) \<and> (strip out = [] \<or> decodes env out) \<longrightarrow>
      fst (run_eslint_analysis env code w) =
        \<lparr>success = True,
         results = (if strip out = [] then JList []
                    else case loads_value env out of Some v \<Rightarrow> v | None \<Rightarrow> JList []),
         error = None, raw_output = Some out, errors = Some err\<rparr>) \<and>
   (pylint_try env code w = Inr (out, err) \<and>
    find (\<lambda>line. \<not> decodes env line) (stdout_lines out) = Some l \<and> json_loads env l = Inl e \<longrightarrow>
      fst (run_pylint_analysis env code w) =
        \<lparr>success = False, results = JList [],
         error = Some (if is_TimeoutExpired e then ''Pylint timed out''
                       else if is_FileNotFoundError e
                            then ''pylint not found. Run: pip install pylint''
                       else exn_str e),
         raw_output = None, errors = None\<rparr>) \<and>
   (bandit_try env code w = Inr (out, err) \<and> strip out \<noteq> [] \<and>
    json_loads env out = Inl e \<and> \<not> is_JSONDecodeError e \<longrightarrow>
      fst (run_bandit_analysis env code w) =
        \<lparr>success = False, results = JObj [],
         error = Some (if is_TimeoutExpired e then ''Bandit timed out''
                       else if is_FileNotFoundError e
                            then ''bandit not found. Run: pip install bandit''
                       else exn_str e),
         raw_output = None, errors = None\<rparr>) \<and>
   (eslint_try env code w = Inr (out, err) \<and> strip out \<noteq> [] \<and>
    json_loads env out = Inl e \<and> \<not> is_JSONDecodeError e \<longrightarrow>
      fst (run_eslint_analysis env code w) =
        \<lparr>success = False, results = JList [],
         error = Some (if is_TimeoutExpired e then ''ESLint timed out''
                       else if is_FileNotFoundError e
                            then ''ESLint/Node not found. Install Node.js + npm install -g eslint''
                       else exn_str e),
         raw_output = None, errors = None\<rparr>)"
proof (intro conjI impI)
  assume "pylint_try env code w = Inr (out, err) \<and> list_all (decodes env) (stdout_lines out)"
  then show "fst (run_pylint_analysis env code w) =
        \<lparr>success = True,
         results = JList (List.map_filter (loads_value env) (stdout_lines out)),
         error = None, raw_output = Some out, errors = Some err\<rparr>"
    by (simp add: run_pylint_analysis_result pylint_parse_decodes completed_def)
next
  assume "bandit_try env code w = Inr (out, err) \<and> (strip out = [] \<or> decodes env out)"
  then show "fst (run_bandit_analysis env code w) =
        \<lparr>success = True,
         results = (if strip out = [] then JObj []
                    else case loads_value env out of Some v \<Rightarrow> v | None \<Rightarrow> JObj []),
         error = None, raw_output = Some out, errors = Some err\<rparr>"
    using document_parse_decodes [of out env "JObj []"]
    by (simp add: run_bandit_analysis_result completed_def)
next
  assume "eslint_try env code w = Inr (out, err) \<and> (strip out = [] \<or> decodes env out)"
  then show "fst (run_eslint_analysis env code w) =
        \<lparr>success = True,
         results = (if strip out = [] then JList []
                    else case loads_value env out of Some v \<Rightarrow> v | None \<Rightarrow> JList []),
         error = None, raw_output = Some out, errors = Some err\<rparr>"
    using document_parse_decodes [of out env "JList []"]
    by (simp add: run_eslint_analysis_result completed_def)
next
  assume "pylint_try env code w = Inr (out, err) \<and>
    find (\<lambda>line. \<not> decodes env line) (stdout_lines out) = Some l \<and> json_loads env l = Inl e"
  then have "pylint_try env code w = Inr (out, err)" and "pylint_parse env out = Inl e"
    using pylint_parse_raises [of env out l e] by simp_all
  then show "fst (run_pylint_analysis env code w) =
        \<lparr>success = False, results = JList [],
         error = Some (if is_TimeoutExpired e then ''Pylint timed out''
                       else if is_FileNotFoundError e
                            then ''pylint not found. Run: pip install pylint''
                       else exn_str e),
         raw_output = None, errors = None\<rparr>"
    by (cases e) (simp_all add: run_pylint_analysis_result failure_def)
next
  assume "bandit_try env code w = Inr (out, err) \<and> strip out \<noteq> [] \<and>
    json_loads env out = Inl e \<and> \<not> is_JSONDecodeError e"
  then have "bandit_try env code w = Inr (out, err)"
    and "document_parse env (JObj []) out = Inl e"
    using document_parse_raises [of out env e "JObj []"] by simp_all
  then show "fst (run_bandit_analysis env code w) =
        \<lparr>success = False, results = JObj [],
         error = Some (if is_TimeoutExpired e then ''Bandit timed out''
                       else if is_FileNotFoundError e
                            then ''bandit not found. Run: pip install bandit''
                       else exn_str e),
         raw_output = None, errors = None\<rparr>"
    by (cases e) (simp_all add: run_bandit_analysis_result failure_def)
next
  assume "eslint_try env code w = Inr (out, err) \<and> strip out \<noteq> [] \<and>
    json_loads env out = Inl e \<and> \<not> is_JSONDecodeError e"
  then have "eslint_try env code w = Inr (out, err)"
    and "document_parse env (JList []) out = Inl e"
    using document_parse_raises [of out env e "JList []"] by simp_all
  then show "fst (run_eslint_analysis env code w) =
        \<lparr>success = False, results = JList [],
         error = Some (if is_TimeoutExpired e then ''ESLint timed out''
                       else if is_FileNotFoundError e
                            then ''ESLint/Node not found. Install Node.js + npm install -g eslint''
                       else exn_str e),
         raw_output = None, errors = None\<rparr>"
    by (cases e) (simp_all add: run_eslint_analysis_result failure_def)
qed

theorem adapter_parse_tolerant_witness:
  "pylint_try sample_env ''x = 1'' empty_world = Inr (pylint_line @ ''\<newline>\<newline>oops\<newline>'', []) \<and>
   stdout_lines (pylint_line @ ''\<newline>\<newline>oops\<newline>'') = [pylint_line, ''oops''] \<and>
   list_all (decodes sample_env) [pylint_line, ''oops''] \<and>
   fst (run_pylint_analysis sample_env ''x = 1'' empty_world) =
     \<lparr>success = True, results = JList [pylint_issue], error = None,
      raw_output = Some (pylint_line @ ''\<newline>\<newline>oops\<newline>''), errors = Some []\<rparr> \<and>
   bandit_try sample_env ''garbled'' empty_world = Inr (''oops'', []) \<and>
   decodes sample_env ''oops'' \<and>
   fst (run_bandit_analysis sample_env ''garbled'' empty_world) =
     \<lparr>success = True, results = JObj [], error = None,
      raw_output = Some ''oops'', errors = Some []\<rparr> \<and>
   eslint_try sample_env ''garbled'' empty_world = Inr (''oops'', []) \<and>
   fst (run_eslint_analysis sample_env ''garbled'' empty_world) =
     \<lparr>success = True, results = JList [], error = None,
      raw_output = Some ''oops'', errors = Some []\<rparr> \<and>
   pylint_try sample_env ''overlong'' empty_world = Inr (long_integer, []) \<and>
   find (\<lambda>line. \<not> decodes sample_env line) (stdout_lines long_integer) = Some long_integer \<and>
   json_loads sample_env long_integer =
     Inl (ValueError ''Exceeds the limit (4300 digits) for integer string conversion'') \<and>
   fst (run_pylint_analysis sample_env ''overlong'' empty_world) =
     \<lparr>success = False, results = JList [],
      error = Some ''Exceeds the limit (4300 digits) for integer string conversion'',
      raw_output = None, errors = None\<rparr> \<and>
   bandit_try sample_env ''overlong'' empty_world = Inr (long_integer, []) \<and>
   strip long_integer \<noteq> [] \<and>
   fst (run_bandit_analysis sample_env ''overlong'' empty_world) =
     \<lparr>success = False, results = JObj [],
      error = Some ''Exceeds the limit (4300 digits) for integer string conversion'',
      raw_output = None, errors = None\<rparr> \<and>
   eslint_try sample_env ''overlong'' empty_world = Inr (long_integer, []) \<and>
   fst (run_eslint_analysis sample_env ''overlong'' empty_world) =
     \<lparr>success = False, results = JList [],
      error = Some ''Exceeds the limit (4300 digits) for integer string conversion'',
      raw_output = None, errors = None\<rparr>"
proof -
  let ?out = "pylint_line @ ''\<newline>\<newline>oops\<newline>''"
  let ?v = "ValueError ''Exceeds the limit (4300 digits) for integer string conversion''"
  have p: "pylint_try sample_env ''x = 1'' empty_world = Inr (?out, [])"
    by (simp add: adapter_defs sample_env_def sample_tool_def sample_stdout_def argv_file_def
          empty_world_def Let_def)
  have b: "bandit_try sample_env ''garbled'' empty_world = Inr (''oops'', [])"
    by (simp add: adapter_defs sample_defs Let_def)
  have e: "eslint_try sample_env ''garbled'' empty_world = Inr (''oops'', [])"
    by (simp add: adapter_defs sample_defs Let_def)
  have sl: "stdout_lines ?out = [pylint_line, ''oops'']"
    by (simp add: stdout_lines_def strip_def isspace_def pylint_line_def)
  have d: "decodes sample_env pylint_line" "decodes sample_env ''oops''"
    by (simp_all add: decodes_def sample_defs)
  have v: "loads_value sample_env pylint_line = Some pylint_issue"
          "loads_value sample_env ''oops'' = None"
    by (simp_all add: loads_value_def sample_defs)
  have s: "strip ''oops'' \<noteq> []"
    by (simp add: strip_def isspace_def)
  have po: "pylint_try sample_env ''overlong'' empty_world = Inr (long_integer, [])"
    by (simp add: adapter_defs sample_env_def sample_tool_def sample_stdout_def argv_file_def
          empty_world_def Let_def)
  have bo: "bandit_try sample_env ''overlong'' empty_world = Inr (long_integer, [])"
    by (simp add: adapter_defs sample_env_def sample_tool_def sample_stdout_def argv_file_def
          empty_world_def Let_def)
  have eo: "eslint_try sample_env ''overlong'' empty_world = Inr (long_integer, [])"
    by (simp add: adapter_defs sample_env_def sample_tool_def sample_stdout_def argv_file_def
          empty_world_def Let_def)
  have l: "json_loads sample_env long_integer = Inl ?v"
    by (simp add: sample_env_def sample_json_loads_long_integer)
  have nd: "\<not> decodes sample_env long_integer"
    by (simp add: decodes_def l)
  have f: "find (\<lambda>line. \<not> decodes sample_env line) (stdout_lines long_integer) = Some long_integer"
    by (simp add: stdout_lines_def long_integer_facts nd)
  have ne: "strip long_integer \<noteq> []"
    by (simp add: long_integer_facts)
  show ?thesis
    using p b e sl d v s po bo eo l nd f ne
      adapter_parse_tolerant [of sample_env "''x = 1''" empty_world ?out "[]"]
      adapter_parse_tolerant [of sample_env "''garbled''" empty_world "''oops''" "[]"]
      adapter_parse_tolerant [of sample_env "''overlong''" empty_world long_integer "[]"
         long_integer ?v]
    by (simp add: List.map_filter_simps)
qed

section \<open>The combined issue count\<close>

text \<open>
  C6. For a static-analysis mapping whose successful payloads have the shapes of the
  tools' interfaces, the count the combined-suggestions view computes is the sum, over
  the analyzer results that are present, successful and have a non-empty payload, of
  their numbers of diagnostics (for eslint, the lengths of the per-file \<open>messages\<close> lists
  added up); an absent or failed result adds nothing, and each tool is counted once.
\<close>

theorem combined_issue_count_is_sum:
  assumes "well_shaped static_analysis"
  shows "combined_issue_count static_analysis = Inr (spec_issue_count static_analysis)"
  using assms
  by (simp add: combined_issue_count_def spec_issue_count_def well_shaped_def bindE_def
        add_pylint_spec add_bandit_spec add_eslint_spec)

theorem combined_issue_count_is_sum_witness:
  "well_shaped
     \<lparr>sa_language = ''Python'',
      pylint = Some (completed (JList [pylint_issue, pylint_issue]) [] []),
      bandit = Some (completed bandit_document bandit_stdout []),
      eslint = None\<rparr> \<and>
   combined_issue_count
     \<lparr>sa_language = ''Python'',
      pylint = Some (completed (JList [pylint_issue, pylint_issue]) [] []),
      bandit = Some (completed bandit_document bandit_stdout []),
      eslint = None\<rparr> = Inr 3 \<and>
   well_shaped
     \<lparr>sa_language = ''JavaScript'', pylint = None,
      bandit = Some (failure ''Bandit timed out'' (JObj [])),
      eslint = Some (completed eslint_document eslint_stdout [])\<rparr> \<and>
   combined_issue_count
     \<lparr>sa_language = ''JavaScript'', pylint = None,
      bandit = Some (failure ''Bandit timed out'' (JObj [])),
      eslint = Some (completed eslint_document eslint_stdout [])\<rparr> = Inr 1"
  using combined_issue_count_is_sum
          [of "\<lparr>sa_language = ''Python'',
                pylint = Some (completed (JList [pylint_issue, pylint_issue]) [] []),
                bandit = Some (completed bandit_document bandit_stdout []),
                eslint = None\<rparr>"]
        combined_issue_count_is_sum
          [of "\<lparr>sa_language = ''JavaScript'', pylint = None,
                bandit = Some (failure ''Bandit timed out'' (JObj [])),
                eslint = Some (completed eslint_document eslint_stdout [])\<rparr>"]
  by (simp add: well_shaped_def entry_shape_def spec_issue_count_def spec_contribution_def
        completed_def failure_def bandit_document_def eslint_document_def)

section \<open>The report\<close>

text \<open>
  C7. The review of \<open>var x = 1\<close> as JavaScript holds a successful eslint result with one
  diagnostic, \<open>Unexpected var\<close> on line 1. The report \<open>download_report\<close> writes for it is
  the header followed by the AI section: no line of it carries the diagnostic.
\<close>

theorem report_omits_eslint:
  "js_review =
     Review \<lparr>review_language = ''JavaScript'',
        static = \<lparr>sa_language = ''JavaScript'', pylint = None, bandit = None,
           eslint = Some \<lparr>success = True, results = eslint_document, error = None,
                          raw_output = Some eslint_stdout, errors = Some []\<rparr>\<rparr>,
        ai = \<lparr>ai_success = True, feedback = ''fine'',
               model_used = Some ''Salesforce/codet5-base'', ai_error = None\<rparr>,
        timestamp = ''2024-01-01 12:00:00.000000''\<rparr> \<and>
   spec_diagnostics Eslint eslint_document =
     [JObj [(''line'', JInt 1), (''message'', JStr ''Unexpected var''),
            (''severity'', JInt 2), (''ruleId'', JStr ''no-var'')]] \<and>
   download_report sample_env js_review =
     Inr ''AI-Powered Code Review Report\<newline>Generated: 2024-01-01 12:00:00\<newline>Language: JavaScript\<newline>\<newline>=== STATIC ANALYSIS RESULTS ===\<newline>\<newline>=== AI ANALYSIS RESULTS ===\<newline>Model: Salesforce/codet5-base\<newline>\<newline>fine''"
proof -
  have r: "js_review =
     Review \<lparr>review_language = ''JavaScript'',
        static = \<lparr>sa_language = ''JavaScript'', pylint = None, bandit = None,
           eslint = Some \<lparr>success = True, results = eslint_document, error = None,
                          raw_output = Some eslint_stdout, errors = Some []\<rparr>\<rparr>,
        ai = \<lparr>ai_success = True, feedback = ''fine'',
               model_used = Some ''Salesforce/codet5-base'', ai_error = None\<rparr>,
        timestamp = ''2024-01-01 12:00:00.000000''\<rparr>"
    by (simp add: js_review_def review_defs adapter_defs sample_defs Let_def py_split.simps)
  have d: "spec_diagnostics Eslint eslint_document =
     [JObj [(''line'', JInt 1), (''message'', JStr ''Unexpected var''),
            (''severity'', JInt 2), (''ruleId'', JStr ''no-var'')]]"
    by (simp add: eslint_document_def)
  have t: "download_report sample_env js_review =
     Inr ''AI-Powered Code Review Report\<newline>Generated: 2024-01-01 12:00:00\<newline>Language: JavaScript\<newline>\<newline>=== STATIC ANALYSIS RESULTS ===\<newline>\<newline>=== AI ANALYSIS RESULTS ===\<newline>Model: Salesforce/codet5-base\<newline>\<newline>fine''"
    unfolding r
    by (simp add: download_report_def bindE_def pylint_section_def bandit_section_def
          ai_section_def report_header_def sample_env_def)
  show ?thesis
    by (intro conjI r d t)
qed

section \<open>Failures of the model runtime\<close>

text \<open>
  C8. When generating from the shortened prompt raises, \<open>call_huggingface_model\<close> raises
  nothing and returns a text: the fixed \<open>PyTorch/Transformers not available\<close> message with
  its install command when the exception is an \<open>ImportError\<close>, and \<open>AI analysis failed: \<close>
  followed by the exception's message otherwise. \<open>run_ai_analysis\<close> then returns a record
  with \<open>success = True\<close>, that text as its feedback, the model name and no error.
\<close>

theorem ai_failure_is_feedback:
  "(generate env (short_prompt (create_code_review_prompt code language)) = Inl e \<longrightarrow>
      fst (call_huggingface_model env (create_code_review_prompt code language) w) =
        Inr (if is_ImportError e
             then ''PyTorch/Transformers not available. Install with: pip install torch transformers''
             else ''AI analysis failed: '' @ exn_str e) \<and>
      fst (run_ai_analysis env code language w) =
        \<lparr>ai_success = True,
         feedback = (if is_ImportError e
             then ''PyTorch/Transformers not available. Install with: pip install torch transformers''
             else ''AI analysis failed: '' @ exn_str e),
         model_used = Some ''Salesforce/codet5-base'', ai_error = None\<rparr>)"
  by (cases e) (simp_all add: run_ai_analysis_def call_huggingface_model_def Let_def)

theorem ai_failure_is_feedback_witness:
  "generate sample_env (short_prompt (create_code_review_prompt ''import no-torch'' ''Python''))
     = Inl (ImportError ''No module named torch'') \<and>
   fst (run_ai_analysis sample_env ''import no-torch'' ''Python'' empty_world) =
        \<lparr>ai_success = True,
         feedback = ''PyTorch/Transformers not available. Install with: pip install torch transformers'',
         model_used = Some ''Salesforce/codet5-base'', ai_error = None\<rparr> \<and>
   generate sample_env (short_prompt (create_code_review_prompt ''huge = 1'' ''Python''))
     = Inl (OtherException ''out of memory'') \<and>
   fst (run_ai_analysis sample_env ''huge = 1'' ''Python'' empty_world) =
        \<lparr>ai_success = True, feedback = ''AI analysis failed: out of memory'',
         model_used = Some ''Salesforce/codet5-base'', ai_error = None\<rparr>"
  using ai_failure_is_feedback [of sample_env "''import no-torch''" "''Python''"
          "ImportError ''No module named torch''" empty_world]
        ai_failure_is_feedback [of sample_env "''huge = 1''" "''Python''"
          "OtherException ''out of memory''" empty_world]
  by (simp add: sample_env_def sample_generate_def short_prompt_def create_code_review_prompt_def)

section \<open>The temporary file\<close>

text \<open>
  C9. In the simulated environment files are written in ASCII, so writing the code
  \<open>x = \<close> followed by the character 0xE9 raises. Each adapter then returns a failure with
  the exception's message, and the file it created is still there when it returns: the
  variable \<open>temp_file\<close> is assigned after \<open>f.write(code)\<close>, so the \<open>finally\<close> clause finds it
  \<open>None\<close> and deletes nothing.
\<close>

theorem temp_file_left_behind:
  "write_error sample_env (''x = '' @ [CHR 0xE9]) =
     Some (OtherException ''ascii codec cannot encode character'') \<and>
   run_pylint_analysis sample_env (''x = '' @ [CHR 0xE9]) empty_world =
     (\<lparr>success = False, results = JList [],
       error = Some ''ascii codec cannot encode character'', raw_output = None, errors = None\<rparr>,
      \<lparr>files = [''/tmp/tmpa.py'' \<mapsto> []], trace = [Invoke Pylint]\<rparr>) \<and>
   run_bandit_analysis sample_env (''x = '' @ [CHR 0xE9]) empty_world =
     (\<lparr>success = False, results = JObj [],
       error = Some ''ascii codec cannot encode character'', raw_output = None, errors = None\<rparr>,
      \<lparr>files = [''/tmp/tmpa.py'' \<mapsto> []], trace = [Invoke Bandit]\<rparr>) \<and>
   run_eslint_analysis sample_env (''x = '' @ [CHR 0xE9]) empty_world =
     (\<lparr>success = False, results = JList [],
       error = Some ''ascii codec cannot encode character'', raw_output = None, errors = None\<rparr>,
      \<lparr>files = [''/tmp/tmpa.js'' \<mapsto> []], trace = [Invoke Eslint]\<rparr>) \<and>
   files empty_world = Map.empty"
  by (simp add: adapter_defs sample_defs Let_def)

section \<open>The AI record of a review\<close>

text \<open>
  C10. For code that is not blank and language \<open>Python\<close> or \<open>JavaScript\<close>, the AI record
  of the review has \<open>success = True\<close>, the model name \<open>Salesforce/codet5-base\<close>, no error,
  and as feedback the string \<open>call_huggingface_model\<close> returned. \<open>call_huggingface_model\<close>
  returns a string for every prompt, so \<open>run_ai_analysis\<close> never takes its \<open>except\<close>
  branch: its record has \<open>success = True\<close> in every world.
\<close>

theorem ai_analysis_always_succeeds:
  assumes "strip code \<noteq> []" and "language = ''Python'' \<or> language = ''JavaScript''"
  shows "(\<exists>r w'. review_code env code language w = (Review r, w') \<and>
            ai_success (ai r) \<and> model_used (ai r) = Some ''Salesforce/codet5-base'' \<and>
            ai_error (ai r) = None \<and>
            fst (call_huggingface_model env (create_code_review_prompt code language) w)
              = Inr (feedback (ai r))) \<and>
         (\<forall>prompt w0. \<exists>s. fst (call_huggingface_model env prompt w0) = Inr s) \<and>
         (\<forall>w0. ai_success (fst (run_ai_analysis env code language w0)))"
proof (intro conjI allI)
  obtain sa w1 where s: "run_static_analysis env code language w = (sa, w1)"
    by (cases "run_static_analysis env code language w")
  obtain f
    where "fst (call_huggingface_model env (create_code_review_prompt code language) w) = Inr f"
      and "run_ai_analysis env code language w1 =
         (\<lparr>ai_success = True, feedback = f, model_used = Some ''Salesforce/codet5-base'',
           ai_error = None\<rparr>,
          w1\<lparr>trace := trace w1 @ [Info ''Running CodeT5 AI analysis...'', Invoke CodeT5]\<rparr>)"
    using run_ai_analysis_succeeds [of env code language w w1] by blast
  with assms s supported_cases [OF assms(2)]
  show "\<exists>r w'. review_code env code language w = (Review r, w') \<and>
            ai_success (ai r) \<and> model_used (ai r) = Some ''Salesforce/codet5-base'' \<and>
            ai_error (ai r) = None \<and>
            fst (call_huggingface_model env (create_code_review_prompt code language) w)
              = Inr (feedback (ai r))"
    by (simp add: review_code_def)
next
  fix prompt w0
  show "\<exists>s. fst (call_huggingface_model env prompt w0) = Inr s"
    by (simp add: call_huggingface_model_def Let_def split: sum.split py_exn.split)
next
  fix w0
  show "ai_success (fst (run_ai_analysis env code language w0))"
    using run_ai_analysis_succeeds [of env code language w0 w0] by auto
qed

theorem ai_analysis_always_succeeds_witness:
  "strip ''huge = 1'' \<noteq> [] \<and> (''JavaScript'' = ''Python'' \<or> ''JavaScript'' = ''JavaScript'') \<and>
   (\<exists>r w'. review_code sample_env ''huge = 1'' ''JavaScript'' empty_world = (Review r, w') \<and>
      ai r = \<lparr>ai_success = True, feedback = ''AI analysis failed: out of memory'',
               model_used = Some ''Salesforce/codet5-base'', ai_error = None\<rparr>)"
  using ai_analysis_always_succeeds [of "''huge = 1''" "''JavaScript''" sample_env empty_world]
  by (simp add: review_defs adapter_defs sample_defs Let_def)

section \<open>Further properties\<close>

text \<open>
  When the code can be written to the file, each adapter returns with the files as they
  were before the call: the temporary file is gone whether the tool completed, timed
  out, was not found or raised, and no other file was touched.
\<close>

theorem adapters_restore_files:
  assumes "write_error env code = None"
  shows "files (snd (run_pylint_analysis env code w)) = files w \<and>
         files (snd (run_bandit_analysis env code w)) = files w \<and>
         files (snd (run_eslint_analysis env code w)) = files w"
proof -
  have l: "files (log_event ev w) = files w" for ev
    by (simp add: log_event_def)
  have "files (snd (run_pylint_analysis env code w)) = files w"
    using write_and_run_cleanup [OF assms, of "''.py''" pylint_argv "log_event (Invoke Pylint) w"]
    by (cases "write_and_run env ''.py'' pylint_argv code (log_event (Invoke Pylint) w)")
       (auto simp: run_pylint_analysis_def l split: sum.splits)
  moreover have "files (snd (run_bandit_analysis env code w)) = files w"
    using write_and_run_cleanup [OF assms, of "''.py''" bandit_argv "log_event (Invoke Bandit) w"]
    by (cases "write_and_run env ''.py'' bandit_argv code (log_event (Invoke Bandit) w)")
       (auto simp: run_bandit_analysis_def l split: sum.splits)
  moreover have "files (snd (run_eslint_analysis env code w)) = files w"
    using write_and_run_cleanup [OF assms, of "''.js''" eslint_argv "log_event (Invoke Eslint) w"]
    by (cases "write_and_run env ''.js'' eslint_argv code (log_event (Invoke Eslint) w)")
       (auto simp: run_eslint_analysis_def l split: sum.splits)
  ultimately show ?thesis by simp
qed

theorem adapters_restore_files_witness:
  "write_error sample_env ''timeout'' = None \<and>
   files (snd (run_pylint_analysis sample_env ''timeout'' empty_world)) = files empty_world \<and>
   files (snd (run_bandit_analysis sample_env ''timeout'' empty_world)) = files empty_world \<and>
   files (snd (run_eslint_analysis sample_env ''timeout'' empty_world)) = files empty_world"
  using adapters_restore_files [of sample_env "''timeout''" empty_world]
  by (simp add: sample_env_def)

text \<open>
  The layout of the report of a Python review whose pylint and bandit results are
  successful and hold non-empty lists of dicts, and whose AI record is successful: the
  header, the pylint section with one line per issue in the order of the list, the bandit
  section likewise, and the AI section with the model name and the feedback text at the
  end.
\<close>

theorem report_layout:
  assumes "pylint (static r) = Some p" and "success p" and "results p = JList pylint_issues"
    and "pylint_issues \<noteq> []" and "list_all is_dict pylint_issues"
    and "bandit (static r) = Some b" and "success b" and "results b = JObj kvs"
    and "map_of kvs ''results'' = Some (JList bandit_issues)"
    and "bandit_issues \<noteq> []" and "list_all is_dict bandit_issues"
    and "ai_success (ai r)" and "model_used (ai r) = Some m"
  shows "download_report env (Review r) =
           Inr (report_header env (review_language r) @
                ''\<newline>--- PYLINT RESULTS ---\<newline>'' @
                concat (map (pylint_report_line env) pylint_issues) @
                ''\<newline>--- BANDIT SECURITY RESULTS ---\<newline>'' @
                concat (map (bandit_report_line env) bandit_issues) @
                ''\<newline>=== AI ANALYSIS RESULTS ===\<newline>'' @
                ''Model: '' @ m @ ''\<newline>\<newline>'' @ feedback (ai r))"
proof -
  let ?h = "report_header env (review_language r)"
  let ?rc1 = "?h @ ''\<newline>--- PYLINT RESULTS ---\<newline>'' @
                concat (map (pylint_report_line env) pylint_issues)"
  have p: "pylint_section env (pylint (static r)) ?h = Inr ?rc1"
    using assms(1-5)
    by (simp add: pylint_section_def bindE_def pylint_issue_lines_dicts)
  have b: "bandit_section env (bandit (static r)) ?rc1 =
             Inr (?rc1 @ ''\<newline>--- BANDIT SECURITY RESULTS ---\<newline>'' @
                  concat (map (bandit_report_line env) bandit_issues))"
    using assms(6-11)
    by (simp add: bandit_section_def bindE_def bandit_issue_lines_dicts)
  have "download_report env (Review r) =
          Inr (ai_section (ai r)
                 (?rc1 @ ''\<newline>--- BANDIT SECURITY RESULTS ---\<newline>'' @
                  concat (map (bandit_report_line env) bandit_issues)))"
    by (simp only: download_report_def review_result.case bindE_def p b sum.case)
  then show ?thesis
    using assms(12,13) by (simp add: ai_section_def)
qed

theorem report_layout_witness:
  "python_review =
     Review \<lparr>review_language = ''Python'',
        static = \<lparr>sa_language = ''Python'',
           pylint = Some \<lparr>success = True, results = JList [pylint_issue], error = None,
                          raw_output = Some (pylint_line @ ''\<newline>\<newline>oops\<newline>''),
                          errors = Some []\<rparr>,
           bandit = Some \<lparr>success = True, results = bandit_document, error = None,
                          raw_output = Some bandit_stdout, errors = Some []\<rparr>,
           eslint = None\<rparr>,
        ai = \<lparr>ai_success = True, feedback = ''fine'',
               model_used = Some ''Salesforce/codet5-base'', ai_error = None\<rparr>,
        timestamp = ''2024-01-01 12:00:00.000000''\<rparr> \<and>
   download_report sample_env python_review =
     Inr ''AI-Powered Code Review Report\<newline>Generated: 2024-01-01 12:00:00\<newline>Language: Python\<newline>\<newline>=== STATIC ANALYSIS RESULTS ===\<newline>\<newline>--- PYLINT RESULTS ---\<newline>Line 1: Missing module docstring\<newline>\<newline>--- BANDIT SECURITY RESULTS ---\<newline>Line 1: Use of eval (MEDIUM)\<newline>\<newline>=== AI ANALYSIS RESULTS ===\<newline>Model: Salesforce/codet5-base\<newline>\<newline>fine''"
proof -
  let ?r = "\<lparr>review_language = ''Python'',
        static = \<lparr>sa_language = ''Python'',
           pylint = Some \<lparr>success = True, results = JList [pylint_issue], error = None,
                          raw_output = Some (pylint_line @ ''\<newline>\<newline>oops\<newline>''),
                          errors = Some []\<rparr>,
           bandit = Some \<lparr>success = True, results = bandit_document, error = None,
                          raw_output = Some bandit_stdout, errors = Some []\<rparr>,
           eslint = None\<rparr>,
        ai = \<lparr>ai_success = True, feedback = ''fine'',
               model_used = Some ''Salesforce/codet5-base'', ai_error = None\<rparr>,
        timestamp = ''2024-01-01 12:00:00.000000''\<rparr>"
  have r: "python_review = Review ?r"
    by (simp add: python_review_def review_defs adapter_defs sample_defs Let_def
          py_split.simps)
  have "download_report sample_env (Review ?r) =
     Inr ''AI-Powered Code Review Report\<newline>Generated: 2024-01-01 12:00:00\<newline>Language: Python\<newline>\<newline>=== STATIC ANALYSIS RESULTS ===\<newline>\<newline>--- PYLINT RESULTS ---\<newline>Line 1: Missing module docstring\<newline>\<newline>--- BANDIT SECURITY RESULTS ---\<newline>Line 1: Use of eval (MEDIUM)\<newline>\<newline>=== AI ANALYSIS RESULTS ===\<newline>Model: Salesforce/codet5-base\<newline>\<newline>fine''"
    using report_layout [of ?r "\<lparr>success = True, results = JList [pylint_issue], error = None,
                          raw_output = Some (pylint_line @ ''\<newline>\<newline>oops\<newline>''),
                          errors = Some []\<rparr>" "[pylint_issue]"
               "\<lparr>success = True, results = bandit_document, error = None,
                          raw_output = Some bandit_stdout, errors = Some []\<rparr>"
               "[(''results'',
            JList [JObj [(''line_number'', JInt 1), (''issue_text'', JStr ''Use of eval''),
                         (''severity'', JStr ''MEDIUM'')]])]"
               "[JObj [(''line_number'', JInt 1), (''issue_text'', JStr ''Use of eval''),
                         (''severity'', JStr ''MEDIUM'')]]" "''Salesforce/codet5-base''" sample_env]
    by (simp add: pylint_issue_def bandit_document_def pylint_report_line_def
          bandit_report_line_def report_header_def sample_env_def string_of_int_def
          string_of_nat.simps)
  with r show ?thesis by simp
qed

end
